theory Spec2Isabelle
  imports Main "HOL-Library.Char_ord" "HOL-Library.List_Lexorder" "HOL-Library.Product_Lexorder"
    "HOL-Library.Multiset"
begin

section \<open>Strings\<close>

text \<open>
  A Python \<open>str\<close> is modelled as the \<open>string\<close> of its UTF-8 encoding, a lone surrogate
  being encoded like the other code points of its range (Python's \<open>surrogatepass\<close>). Every
  ASCII character is one \<open>char\<close> and every other code point is a run of two to four
  \<open>char\<close>s above 127; comparing two such strings \<open>char\<close> by \<open>char\<close> is comparing the
  \<open>str\<close>s by code point.

  What Python reads from the Unicode character database, the interpreter's limit on the
  digits of an \<open>int\<close>, and the text that the \<open>json\<close> module writes and reads are not
  part of the program. They are taken from a table; the character properties are taken
  from it for the code points beyond ASCII only, and on ASCII the definitions below are
  Python's own.
\<close>

definition is_ascii :: "char \<Rightarrow> bool" where
  "is_ascii c = ((of_char c :: nat) < 128)"

definition cp_size :: "char \<Rightarrow> nat" where
  \<comment> \<open>the number of bytes of a code point, from its first byte\<close>
  "cp_size c =
     (let n = (of_char c :: nat)
      in if n < 0xC0 then 1 else if n < 0xE0 then 2 else if n < 0xF0 then 3 else 4)"

function codepoints :: "string \<Rightarrow> string list" where
  \<comment> \<open>the code points of a \<open>str\<close>, each as its bytes\<close>
  "codepoints [] = []"
| "codepoints (c # s) = (c # take (cp_size c - 1) s) # codepoints (drop (cp_size c - 1) s)"
  by pat_completeness auto
termination
  by (relation "measure length") auto

datatype json =
    JNull | JBool bool | JInt int | JFloat string | JStr string
  | JArr "json list" | JObj "(string \<times> json) list"

text \<open>
  A JSON value as \<open>json.loads\<close> returns it: an object is the list of its distinct keys with
  their values, and a float is kept as its literal.
\<close>

record runtime =
  rt_decimal :: "string \<Rightarrow> nat option"
  rt_other_digit :: "string \<Rightarrow> bool"
  rt_isspace :: "string \<Rightarrow> bool"
  rt_lower :: "string \<Rightarrow> string"
  rt_max_str_digits :: nat
  rt_json_dumps :: "json \<Rightarrow> string"
  rt_json_loads :: "string \<Rightarrow> json option"

text \<open>
  For a code point beyond ASCII, \<open>rt_decimal\<close> is its value as a decimal digit (general
  category Nd: what \<open>\d\<close> matches and \<open>int\<close> reads), \<open>rt_other_digit\<close> says whether it is one
  of the further characters for which \<open>str.isdigit\<close> holds (a superscript two), and
  \<open>rt_isspace\<close> whether \<open>str.isspace\<close> holds. \<open>rt_lower\<close> is \<open>str.lower\<close> on a \<open>str\<close> that has a
  character beyond ASCII. \<open>rt_max_str_digits\<close> is \<open>sys.get_int_max_str_digits()\<close>: 4300 by
  default, 0 where there is no limit. \<open>rt_json_dumps\<close> is the text that
  \<open>json.dump(obj, f, ensure_ascii=False, indent=2)\<close> writes for an object whose strings
  can be encoded, and \<open>rt_json_loads\<close> is \<open>json.loads\<close> on a text (\<open>None\<close> when it raises).
\<close>

definition is_digit :: "char \<Rightarrow> bool" where
  \<comment> \<open>the ASCII digits\<close>
  "is_digit c = (CHR ''0'' \<le> c \<and> c \<le> CHR ''9'')"

definition decimal_value :: "runtime \<Rightarrow> string \<Rightarrow> nat option" where
  \<comment> \<open>the value of a code point as a decimal digit, if it is one\<close>
  "decimal_value u cp =
     (case cp of
        [c] \<Rightarrow> if is_ascii c then (if is_digit c then Some (of_char c - 48) else None)
               else rt_decimal u cp
      | _ \<Rightarrow> rt_decimal u cp)"

definition is_decimal :: "runtime \<Rightarrow> string \<Rightarrow> bool" where
  \<comment> \<open>what \<open>\d\<close> matches\<close>
  "is_decimal u cp = (decimal_value u cp \<noteq> None)"

definition is_digit_cp :: "runtime \<Rightarrow> string \<Rightarrow> bool" where
  \<comment> \<open>\<open>str.isdigit\<close> on one character: the decimal digits and the other digits\<close>
  "is_digit_cp u cp =
     (is_decimal u cp \<or> (case cp of [c] \<Rightarrow> \<not> is_ascii c \<and> rt_other_digit u cp
                                   | _ \<Rightarrow> rt_other_digit u cp))"

definition isdigit :: "runtime \<Rightarrow> string \<Rightarrow> bool" where
  \<comment> \<open>\<open>s.isdigit()\<close>\<close>
  "isdigit u s = (s \<noteq> [] \<and> list_all (is_digit_cp u) (codepoints s))"

definition too_many_digits :: "runtime \<Rightarrow> nat \<Rightarrow> bool" where
  \<comment> \<open>the check of \<open>int\<close> and \<open>str\<close> on a number of digits: CPython looks at the limit
     only above 640 digits\<close>
  "too_many_digits u n = (n > 640 \<and> rt_max_str_digits u > 0 \<and> n > rt_max_str_digits u)"

fun digits_value :: "nat option list \<Rightarrow> int \<Rightarrow> int option" where
  "digits_value [] a = Some a"
| "digits_value (None # ds) a = None"
| "digits_value (Some d # ds) a = digits_value ds (10 * a + int d)"

definition py_int :: "runtime \<Rightarrow> string \<Rightarrow> int option" where
  \<comment> \<open>\<open>int(s)\<close> where the program calls it: on a group matched by \<open>\d+\<close> and on a \<open>str\<close>
     that passed \<open>isdigit\<close>. \<open>None\<close> is the \<open>ValueError\<close> raised for a character without
     a decimal value, for the empty string, and for more digits than the limit allows.\<close>
  "py_int u s =
     (let cps = codepoints s
      in if cps = [] \<or> too_many_digits u (length cps) then None
         else digits_value (map (decimal_value u) cps) 0)"

definition digit_char :: "nat \<Rightarrow> char" where
  "digit_char d = char_of (48 + d)"

fun str_nat :: "nat \<Rightarrow> string" where
  "str_nat n = (if n < 10 then [digit_char n] else str_nat (n div 10) @ [digit_char (n mod 10)])"

declare str_nat.simps [simp del]

definition str_int :: "int \<Rightarrow> string" where
  \<comment> \<open>the decimal numeral of an int\<close>
  "str_int i = (if i < 0 then CHR ''-'' # str_nat (nat (- i)) else str_nat (nat i))"

definition py_str :: "runtime \<Rightarrow> int \<Rightarrow> string option" where
  \<comment> \<open>\<open>str(i)\<close> for an int; \<open>None\<close> is the \<open>ValueError\<close> raised for more digits than the
     limit allows\<close>
  "py_str u i =
     (if too_many_digits u (length (str_nat (nat \<bar>i\<bar>))) then None else Some (str_int i))"

definition lower_char :: "char \<Rightarrow> char" where
  "lower_char c = (if CHR ''A'' \<le> c \<and> c \<le> CHR ''Z'' then char_of (of_char c + (32::nat)) else c)"

definition lower :: "runtime \<Rightarrow> string \<Rightarrow> string" where
  \<comment> \<open>\<open>s.lower()\<close>\<close>
  "lower u s = (if list_all is_ascii s then map lower_char s else rt_lower u s)"

definition is_space_cp :: "runtime \<Rightarrow> string \<Rightarrow> bool" where
  \<comment> \<open>\<open>str.isspace\<close> on one character; the ASCII ones are 9 to 13 and 28 to 32\<close>
  "is_space_cp u cp =
     (case cp of
        [c] \<Rightarrow> if is_ascii c
               then (let n = (of_char c :: nat) in (9 \<le> n \<and> n \<le> 13) \<or> (28 \<le> n \<and> n \<le> 32))
               else rt_isspace u cp
      | _ \<Rightarrow> rt_isspace u cp)"

definition strip :: "runtime \<Rightarrow> string \<Rightarrow> string" where
  \<comment> \<open>\<open>s.strip()\<close>\<close>
  "strip u s =
     concat (rev (dropWhile (is_space_cp u) (rev (dropWhile (is_space_cp u) (codepoints s)))))"

definition startswith :: "string \<Rightarrow> string \<Rightarrow> bool" where
  "startswith s p = (take (length p) s = p)"

definition endswith :: "string \<Rightarrow> string \<Rightarrow> bool" where
  "endswith s p = (length p \<le> length s \<and> drop (length s - length p) s = p)"

fun contains :: "string \<Rightarrow> string \<Rightarrow> bool" where
  \<comment> \<open>\<open>p in s\<close> for strings: \<open>p\<close> occurs as a substring of \<open>s\<close>\<close>
  "contains [] p = (p = [])"
| "contains (c # s) p = (startswith (c # s) p \<or> contains s p)"

definition split1 :: "char \<Rightarrow> string \<Rightarrow> string" where
  \<comment> \<open>\<open>s.split(c, 1)[0]\<close>: the part before the first \<open>c\<close>\<close>
  "split1 c s = takeWhile (\<lambda>x. x \<noteq> c) s"

fun rsplit_at :: "char \<Rightarrow> string \<Rightarrow> string \<times> string" where
  \<comment> \<open>\<open>(s[:i], s[i:])\<close> for \<open>i = s.rfind(c) + 1\<close>: the cut after the last \<open>c\<close>
     (before the whole string when there is none)\<close>
  "rsplit_at c s =
     (let t = rev (takeWhile (\<lambda>x. x \<noteq> c) (rev s))
      in (take (length s - length t) s, t))"

definition replace_char :: "char \<Rightarrow> string \<Rightarrow> string \<Rightarrow> string" where
  \<comment> \<open>\<open>s.replace(c, r)\<close> for a single character \<open>c\<close>\<close>
  "replace_char c r s = concat (map (\<lambda>x. if x = c then r else [x]) s)"

subsection \<open>Encoding and decoding\<close>

definition is_cont :: "char \<Rightarrow> bool" where
  "is_cont c = (0x80 \<le> (of_char c :: nat) \<and> (of_char c :: nat) < 0xC0)"

definition second_ok :: "bool \<Rightarrow> char \<Rightarrow> char \<Rightarrow> bool" where
  \<comment> \<open>the second byte that the UTF-8 codec accepts after the first byte \<open>c\<close> of a sequence
     of three or four; with \<open>surrogates\<close> the encodings of U+D800 to U+DFFF pass\<close>
  "second_ok surrogates c c1 =
     (let n = (of_char c :: nat); m = (of_char c1 :: nat)
      in if n = 0xE0 then 0xA0 \<le> m \<and> m < 0xC0
         else if n = 0xED then 0x80 \<le> m \<and> (m < 0xA0 \<or> (surrogates \<and> m < 0xC0))
         else if n = 0xF0 then 0x90 \<le> m \<and> m < 0xC0
         else if n = 0xF4 then 0x80 \<le> m \<and> m < 0x90
         else is_cont c1)"

fun valid_utf8 :: "bool \<Rightarrow> string \<Rightarrow> bool" where
  \<comment> \<open>whether bytes decode as UTF-8: strictly, or with \<open>errors='surrogatepass'\<close>. For the
     \<open>string\<close> of a \<open>str\<close>, the strict form says that the \<open>str\<close> can be encoded: it has no
     lone surrogate.\<close>
  "valid_utf8 surrogates [] = True"
| "valid_utf8 surrogates (c # s) =
     (if is_ascii c then valid_utf8 surrogates s
      else if 0xC2 \<le> (of_char c :: nat) \<and> (of_char c :: nat) < 0xE0 then
        (case s of c1 # r \<Rightarrow> is_cont c1 \<and> valid_utf8 surrogates r | _ \<Rightarrow> False)
      else if 0xE0 \<le> (of_char c :: nat) \<and> (of_char c :: nat) < 0xF0 then
        (case s of
           c1 # c2 # r \<Rightarrow> second_ok surrogates c c1 \<and> is_cont c2 \<and> valid_utf8 surrogates r
         | _ \<Rightarrow> False)
      else if 0xF0 \<le> (of_char c :: nat) \<and> (of_char c :: nat) < 0xF5 then
        (case s of
           c1 # c2 # c3 # r \<Rightarrow>
             second_ok surrogates c c1 \<and> is_cont c2 \<and> is_cont c3 \<and> valid_utf8 surrogates r
         | _ \<Rightarrow> False)
      else False)"

fun universal_newlines :: "string \<Rightarrow> string" where
  \<comment> \<open>what reading in text mode makes of the line ends\<close>
  "universal_newlines (a # b # s) =
     (if a = CHR 0x0D \<and> b = CHR 0x0A then CHR 0x0A # universal_newlines s
      else if a = CHR 0x0D then CHR 0x0A # universal_newlines (b # s)
      else a # universal_newlines (b # s))"
| "universal_newlines [a] = (if a = CHR 0x0D then [CHR 0x0A] else [a])"
| "universal_newlines [] = []"

section \<open>posixpath\<close>

definition join :: "string \<Rightarrow> string \<Rightarrow> string" where
  \<comment> \<open>\<open>os.path.join(a, b)\<close>\<close>
  "join a b =
     (if startswith b ''/'' then b
      else if a = [] \<or> endswith a ''/'' then a @ b
      else a @ ''/'' @ b)"

fun split_sep :: "string \<Rightarrow> string list" where
  \<comment> \<open>\<open>s.split('/')\<close>\<close>
  "split_sep [] = [] # []"
| "split_sep (c # s) =
     (if c = CHR ''/'' then [] # split_sep s
      else (case split_sep s of [] \<Rightarrow> [c] # [] | w # ws \<Rightarrow> (c # w) # ws))"

fun join_sep :: "string list \<Rightarrow> string" where
  \<comment> \<open>\<open>'/'.join(comps)\<close>\<close>
  "join_sep [] = []"
| "join_sep [w] = w"
| "join_sep (w # ws) = w @ ''/'' @ join_sep ws"

fun norm_comps :: "bool \<Rightarrow> string list \<Rightarrow> string list \<Rightarrow> string list" where
  \<comment> \<open>the loop of \<open>normpath\<close> over the components; \<open>new_comps\<close> is kept reversed\<close>
  "norm_comps initial_slashes new_comps [] = rev new_comps"
| "norm_comps initial_slashes new_comps (seg # comps) =
     (if seg = [] \<or> seg = ''.'' then norm_comps initial_slashes new_comps comps
      else if seg \<noteq> ''..'' \<or> (\<not> initial_slashes \<and> new_comps = [])
                \<or> (new_comps \<noteq> [] \<and> hd new_comps = ''..'')
      then norm_comps initial_slashes (seg # new_comps) comps
      else if new_comps \<noteq> [] then norm_comps initial_slashes (tl new_comps) comps
      else norm_comps initial_slashes new_comps comps)"

definition normpath :: "string \<Rightarrow> string" where
  "normpath path =
     (if path = [] then ''.''
      else
        let initial_slashes =
              (if startswith path ''/'' then
                 (if startswith path ''//'' \<and> \<not> startswith path ''///'' then 2 else 1)
               else (0::nat));
            comps = norm_comps (initial_slashes \<noteq> 0) [] (split_sep path);
            p = replicate initial_slashes CHR ''/'' @ join_sep comps
        in if p = [] then ''.'' else p)"

definition abspath :: "string \<Rightarrow> string \<Rightarrow> string" where
  \<comment> \<open>\<open>os.path.abspath(path)\<close> in a process whose working directory is \<open>cwd\<close>\<close>
  "abspath cwd path = normpath (if startswith path ''/'' then path else join cwd path)"

definition basename :: "string \<Rightarrow> string" where
  "basename p = snd (rsplit_at CHR ''/'' p)"

definition splitext :: "string \<Rightarrow> string \<times> string" where
  \<comment> \<open>\<open>os.path.splitext(p)\<close>: the extension starts at the last dot of the last component,
     unless only dots precede it there\<close>
  "splitext p =
     (let name = basename p;
          stem = fst (rsplit_at CHR ''.'' name)
      in if stem = [] then (p, [])
         else let body = butlast stem
              in if list_all (\<lambda>c. c = CHR ''.'') body then (p, [])
                 else (take (length p - length name + length body) p,
                       drop (length p - length name + length body) p))"

section \<open>The file system\<close>

text \<open>
  The file system is observed through the path strings the server hands to the operating
  system: a path names a regular file with its bytes, a directory, or nothing.
\<close>

datatype node = File string | Dir

definition isdir :: "(string \<rightharpoonup> node) \<Rightarrow> string \<Rightarrow> bool" where
  \<comment> \<open>\<open>os.path.isdir(p)\<close>\<close>
  "isdir fs p = (fs p = Some Dir)"

definition exists_path :: "(string \<rightharpoonup> node) \<Rightarrow> string \<Rightarrow> bool" where
  \<comment> \<open>\<open>os.path.exists(p)\<close>\<close>
  "exists_path fs p = (fs p \<noteq> None)"

section \<open>Directory listing order\<close>

definition sort_names :: "runtime \<Rightarrow> (string \<rightharpoonup> node) \<Rightarrow> string \<Rightarrow> string list \<Rightarrow> string list" where
  \<comment> \<open>\<open>names.sort(key=lambda a: (not os.path.isdir(os.path.join(path, a)), a.lower()))\<close>;
     Python's sort is stable and compares the key tuples lexicographically\<close>
  "sort_names u fs path names = sort_key (\<lambda>a. (\<not> isdir fs (join path a), lower u a)) names"

section \<open>urllib.parse and html\<close>

definition is_hex :: "char \<Rightarrow> bool" where
  "is_hex c = (is_digit c \<or> (CHR ''A'' \<le> c \<and> c \<le> CHR ''F'') \<or> (CHR ''a'' \<le> c \<and> c \<le> CHR ''f''))"

definition hex_val :: "char \<Rightarrow> nat" where
  "hex_val c =
     (if is_digit c then of_char c - 48
      else if CHR ''A'' \<le> c \<and> c \<le> CHR ''F'' then of_char c - 55
      else of_char c - 87)"

fun unquote_to_bytes :: "string \<Rightarrow> string" where
  \<comment> \<open>\<open>urllib.parse.unquote_to_bytes\<close> on ASCII text: a \<open>%\<close> followed by two hexadecimal
     digits is the byte they spell, every other character stays\<close>
  "unquote_to_bytes (c # h1 # h2 # s) =
     (if c = CHR ''%'' \<and> is_hex h1 \<and> is_hex h2
      then char_of (16 * hex_val h1 + hex_val h2) # unquote_to_bytes s
      else c # unquote_to_bytes (h1 # h2 # s))"
| "unquote_to_bytes s = s"

function unquote :: "string \<Rightarrow> string option" where
  \<comment> \<open>\<open>urllib.parse.unquote(s, errors='surrogatepass')\<close>: each run of ASCII characters is
     unquoted to bytes and decoded by itself, the characters between the runs stay.
     \<open>None\<close> is the \<open>UnicodeDecodeError\<close> raised when the bytes of a run are not UTF-8.\<close>
  "unquote [] = Some []"
| "unquote (c # s) =
     (let run = takeWhile is_ascii (c # s);
          others = takeWhile (\<lambda>x. \<not> is_ascii x) (dropWhile is_ascii (c # s));
          decoded = unquote_to_bytes run
      in if valid_utf8 True decoded then
           (case unquote (dropWhile (\<lambda>x. \<not> is_ascii x) (dropWhile is_ascii (c # s))) of
              Some t \<Rightarrow> Some (decoded @ others @ t)
            | None \<Rightarrow> None)
         else None)"
  by pat_completeness auto
termination
proof (relation "measure length")
  show "wf (measure length)" by simp
next
  fix c :: char and s run others decoded
  have "length (dropWhile (\<lambda>x. \<not> is_ascii x) (dropWhile is_ascii (c # s))) < length (c # s)"
  proof (cases "is_ascii c")
    case True
    have "length (dropWhile (\<lambda>x. \<not> is_ascii x) (dropWhile is_ascii s)) \<le> length s"
      by (meson length_dropWhile_le order_trans)
    with True show ?thesis by simp
  next
    case False
    have "length (dropWhile (\<lambda>x. \<not> is_ascii x) s) \<le> length s"
      by (rule length_dropWhile_le)
    with False show ?thesis by simp
  qed
  then show "(dropWhile (\<lambda>x. \<not> is_ascii x) (dropWhile is_ascii (c # s)), c # s) \<in> measure length"
    by simp
qed

definition hex_digit :: "nat \<Rightarrow> char" where
  "hex_digit d = (if d < 10 then char_of (48 + d) else char_of (55 + d))"

definition always_safe :: "char \<Rightarrow> bool" where
  \<comment> \<open>the characters \<open>urllib.parse.quote\<close> never encodes\<close>
  "always_safe c =
     ((CHR ''A'' \<le> c \<and> c \<le> CHR ''Z'') \<or> (CHR ''a'' \<le> c \<and> c \<le> CHR ''z'') \<or> is_digit c
      \<or> c = CHR ''_'' \<or> c = CHR ''.'' \<or> c = CHR ''-'' \<or> c = CHR ''~'')"

definition quote :: "string \<Rightarrow> string option" where
  \<comment> \<open>\<open>urllib.parse.quote(s, safe='/')\<close>; \<open>None\<close> is the \<open>UnicodeEncodeError\<close> raised for a
     \<open>str\<close> with a lone surrogate\<close>
  "quote s =
     (if valid_utf8 False s then
        Some (concat (map (\<lambda>c. if always_safe c \<or> c = CHR ''/'' then [c]
                                 else [CHR ''%'', hex_digit (of_char c div 16),
                                       hex_digit (of_char c mod 16)]) s))
      else None)"

definition escape :: "string \<Rightarrow> string" where
  \<comment> \<open>\<open>html.escape(s)\<close>, with \<open>quote=True\<close>\<close>
  \<open>escape s =
     replace_char (CHR 0x27) ''&#x27;''
       (replace_char (CHR 0x22) ''&quot;''
         (replace_char CHR ''>'' ''&gt;''
           (replace_char CHR ''<'' ''&lt;''
             (replace_char CHR ''&'' ''&amp;'' s))))\<close>

section \<open>The regular expressions of the server\<close>

text \<open>
  Each pattern is written out as the function that \<open>re.match\<close> computes for it. A greedy
  run of digits followed by a fixed character cannot give digits back, so the digit groups
  are the longest runs; \<open>\d\<close> matches the decimal digits of Unicode; \<open>.\<close> does not match a
  line feed, and \<open>$\<close> holds at the end of the string or before a final line feed.
\<close>

definition digits_prefix :: "runtime \<Rightarrow> string \<Rightarrow> string \<times> string" where
  \<comment> \<open>the longest prefix that \<open>\d*\<close> matches, and the rest\<close>
  "digits_prefix u s =
     (concat (takeWhile (is_decimal u) (codepoints s)),
      concat (dropWhile (is_decimal u) (codepoints s)))"

definition dot_star_end :: "string \<Rightarrow> string option" where
  \<comment> \<open>\<open>(.*)$\<close> against the rest of a string\<close>
  "dot_star_end s =
     (let a = takeWhile (\<lambda>c. c \<noteq> CHR 0x0A) s; b = dropWhile (\<lambda>c. c \<noteq> CHR 0x0A) s
      in if b = [] \<or> b = [CHR 0x0A] then Some a else None)"

definition match_share_path :: "runtime \<Rightarrow> string \<Rightarrow> (string \<times> string) option" where
  \<comment> \<open>\<open>re.match(r'^/share(\d+)/(.*)$', path)\<close>: groups 1 and 2\<close>
  "match_share_path u path =
     (if startswith path ''/share'' then
        (case digits_prefix u (drop 6 path) of
           (g1, r2) \<Rightarrow>
             if g1 \<noteq> [] \<and> startswith r2 ''/''
             then (case dot_star_end (tl r2) of Some g2 \<Rightarrow> Some (g1, g2) | None \<Rightarrow> None)
             else None)
      else None)"

definition match_range :: "runtime \<Rightarrow> string \<Rightarrow> (string \<times> string) option" where
  \<comment> \<open>\<open>re.match(r'bytes=(\d+)-(\d*)', range_header)\<close>: groups 1 and 2; the pattern has no
     end anchor, so it matches a prefix of the header\<close>
  "match_range u range_header =
     (if startswith range_header ''bytes='' then
        (case digits_prefix u (drop 6 range_header) of
           (g1, r2) \<Rightarrow>
             if g1 \<noteq> [] \<and> startswith r2 ''-''
             then Some (g1, fst (digits_prefix u (tl r2)))
             else None)
      else None)"

fun last_share_suffix :: "runtime \<Rightarrow> string \<Rightarrow> string option" where
  \<comment> \<open>the suffix starting at the last place where \<open>/share\d+/\<close> begins\<close>
  "last_share_suffix u [] = None"
| "last_share_suffix u (c # s) =
     (case last_share_suffix u s of
        Some g \<Rightarrow> Some g
      | None \<Rightarrow>
          (if startswith (c # s) ''/share'' \<and> fst (digits_prefix u (drop 6 (c # s))) \<noteq> []
              \<and> startswith (snd (digits_prefix u (drop 6 (c # s)))) ''/''
           then Some (c # s) else None))"

definition match_referer :: "runtime \<Rightarrow> string \<Rightarrow> string option" where
  \<comment> \<open>\<open>re.match(r'.*(/share\d+/.*)$', referer)\<close>: group 1. The leading \<open>.*\<close> is greedy, so
     the group starts at the last possible place\<close>
  "match_referer u referer =
     (case dot_star_end referer of
        None \<Rightarrow> None
      | Some line \<Rightarrow> last_share_suffix u line)"

section \<open>Exceptions and error responses\<close>

datatype pyerror =
  ValueError | TypeError | UnicodeDecodeError | UnicodeEncodeError | ConnectionResetError

datatype logarg = Num nat | Str string

definition log_message :: "logarg \<Rightarrow> pyerror option" where
  \<comment> \<open>\<open>FileShareHandler.log_message(format, *args)\<close> on a call with arguments, of which
     \<open>arg0\<close> is the first. It starts with \<open>urllib.parse.unquote(args[0])\<close>, and \<open>unquote\<close>
     starts with the test \<open>'%' not in string\<close>: for an \<open>int\<close> that raises \<open>TypeError\<close>
     (argument of type 'int' is not iterable). For a \<open>str\<close> the call returns (the default
     \<open>errors='replace'\<close> never raises) and the parent's \<open>log_message\<close> writes the line to
     the standard error stream. \<open>None\<close>: the call returns.\<close>
  "log_message arg0 = (case arg0 of Num n \<Rightarrow> Some TypeError | Str s \<Rightarrow> None)"

definition send_error :: "nat \<Rightarrow> pyerror option" where
  \<comment> \<open>\<open>send_error(code, message)\<close> of \<open>http.server\<close>, which the handler inherits. Before it
     sends anything it calls \<open>self.log_error("code %d, message %s", code, message)\<close>,
     that is \<open>self.log_message(format, code, message)\<close>: the first argument is the \<open>int\<close>
     \<open>code\<close>. \<open>None\<close>: logging returned and the error response \<open>code\<close> was sent; otherwise
     the exception leaves \<open>send_error\<close> and nothing was sent. (\<open>send_response\<close> logs through
     \<open>log_request\<close>, whose first argument is the request line, a \<open>str\<close>.)\<close>
  "send_error code = log_message (Num code)"

section \<open>The namespace resolver\<close>

definition translate_path ::
  "runtime \<Rightarrow> string \<Rightarrow> string list \<Rightarrow> string \<Rightarrow> pyerror + string option" where
  \<comment> \<open>\<open>FileShareHandler.translate_path\<close>, for the working directory \<open>cwd\<close> and the
     global list \<open>shared_dirs\<close>. \<open>Inr None\<close> is Python's \<open>None\<close>; \<open>Inl\<close> is an exception that
     leaves the method: \<open>unquote\<close> and \<open>int\<close> are called outside its \<open>try\<close>. The
     \<open>except\<close> branch around \<open>abspath\<close> also returns \<open>None\<close>; \<open>abspath\<close> does not raise on
     these strings.\<close>
  "translate_path u cwd shared_dirs path0 =
     (case unquote (split1 CHR ''#'' (split1 CHR ''?'' path0)) of
        None \<Rightarrow> Inl UnicodeDecodeError
      | Some path \<Rightarrow>
          if path = ''/'' \<or> path = [] then Inr (Some ''/__root__'')
          else
            (case match_share_path u path of
               Some (g1, g2) \<Rightarrow>
                 (case py_int u g1 of
                    None \<Rightarrow> Inl ValueError
                  | Some n \<Rightarrow>
                      (let share_index = n - 1;
                           sub_path = g2
                       in if 0 \<le> share_index \<and> share_index < int (length shared_dirs) then
                            (let share_dir = shared_dirs ! nat share_index;
                                 full_path = abspath cwd (join share_dir sub_path)
                             in if startswith full_path (abspath cwd share_dir)
                                then Inr (Some full_path)
                                else Inr None)
                          else Inr None))
             | None \<Rightarrow> Inr None))"

definition within_root :: "string \<Rightarrow> string \<Rightarrow> bool" where
  \<comment> \<open>containment at path-segment boundaries, as the specification words it: the segments
     of the root are the leading segments of the path\<close>
  "within_root root p =
     (let rs = filter (\<lambda>w. w \<noteq> []) (split_sep root); ps = filter (\<lambda>w. w \<noteq> []) (split_sep p)
      in take (length rs) ps = rs)"

section \<open>The streaming transfer engine\<close>

text \<open>
  What a handler puts on the connection is a list of events in the order they are written:
  a status line, a header, the end of the headers, an error response sent by
  \<open>send_error\<close>, or a chunk of file bytes written to \<open>wfile\<close>. The size of a file is
  the \<open>st_size\<close> of the operating system, a machine integer.
\<close>

datatype wire = Response nat | Header string string | End_headers | Error nat | Body string

record fileobj =
  f_data :: string
  f_pos :: nat
  f_closed :: bool

definition range_not_satisfiable :: "fileobj \<Rightarrow> pyerror + (wire list \<times> fileobj)" where
  \<comment> \<open>the two places of \<open>range_request\<close> that read
     \<open>self.send_error(416, ...); f.close(); return\<close>\<close>
  "range_not_satisfiable f =
     (case send_error 416 of
        Some err \<Rightarrow> Inl err
      | None \<Rightarrow> Inr ([Error 416], f\<lparr>f_closed := True\<rparr>))"

definition range_request ::
  "runtime \<Rightarrow> (string \<rightharpoonup> string) \<Rightarrow> string \<Rightarrow> string \<Rightarrow> fileobj
     \<Rightarrow> pyerror + (wire list \<times> fileobj)" where
  \<comment> \<open>\<open>FileShareHandler.range_request(f, fs, ctype)\<close>; \<open>fs[6]\<close> is the size of the open
     file and \<open>mtime\<close> stands for \<open>date_time_string(fs.st_mtime)\<close>. \<open>Inl\<close> is an exception
     that leaves the method, which catches none: the \<open>ValueError\<close> of \<open>int\<close> or what
     \<open>send_error\<close> raises. The numbers formatted by \<open>str\<close> are below the size of the file,
     so the digit limit of \<open>str\<close> is not met.\<close>
  "range_request u headers ctype mtime f =
     (let file_size = int (length (f_data f))
      in case headers ''Range'' of
           None \<Rightarrow> Inr ([], f)
         | Some range_header \<Rightarrow>
             if range_header = [] then Inr ([], f)
             else
               (case match_range u range_header of
                  None \<Rightarrow> range_not_satisfiable f
                | Some (g1, g2) \<Rightarrow>
                    (case py_int u g1 of
                       None \<Rightarrow> Inl ValueError
                     | Some start \<Rightarrow>
                         (case (if g2 \<noteq> [] then py_int u g2 else Some (file_size - 1)) of
                            None \<Rightarrow> Inl ValueError
                          | Some endpos \<Rightarrow>
                              if start \<ge> file_size \<or> endpos \<ge> file_size \<or> start > endpos
                              then range_not_satisfiable f
                              else
                                (let len = endpos - start + 1
                                 in Inr ([Response 206,
                                          Header ''Content-type'' ctype,
                                          Header ''Accept-Ranges'' ''bytes'',
                                          Header ''Content-Range''
                                            (''bytes '' @ str_int start @ ''-'' @ str_int endpos
                                               @ ''/'' @ str_int file_size),
                                          Header ''Content-Length'' (str_int len),
                                          Header ''Last-Modified'' mtime,
                                          End_headers],
                                         f\<lparr>f_pos := nat start\<rparr>))))))"

text \<open>
  The peer is a count of the writes it still accepts before it resets the connection
  (\<open>None\<close>: it never does). Reading a closed file object raises \<open>ValueError\<close>.
\<close>

function copyfile_range ::
  "fileobj \<Rightarrow> nat option \<Rightarrow> wire list \<Rightarrow> int \<Rightarrow> wire list \<times> pyerror option" where
  \<comment> \<open>\<open>FileShareHandler.copyfile_range(source, outputfile, length)\<close>; a reset connection
     ends the copy silently\<close>
  "copyfile_range source peer out len =
     (if len > 0 then
        (if f_closed source then (out, Some ValueError)
         else
           (let to_read = min (64 * 1024) len;
                buf = take (nat to_read) (drop (f_pos source) (f_data source))
            in if buf = [] then (out, None)
               else if peer = Some 0 then (out, None)
               else copyfile_range (source\<lparr>f_pos := f_pos source + length buf\<rparr>)
                      (map_option (\<lambda>k. k - 1) peer) (out @ [Body buf])
                      (len - int (length buf))))
      else (out, None))"
  by pat_completeness auto
termination
  by (relation "measure (\<lambda>(source, peer, out, len). nat len)") auto

declare copyfile_range.simps [simp del]

function copyfileobj ::
  "nat \<Rightarrow> fileobj \<Rightarrow> nat option \<Rightarrow> wire list \<Rightarrow> wire list \<times> pyerror option" where
  \<comment> \<open>\<open>shutil.copyfileobj(source, outputfile)\<close>, which the parent class's \<open>copyfile\<close>
     calls, with the library's buffer size\<close>
  "copyfileobj bufsize source peer out =
     (if f_closed source then (out, Some ValueError)
      else
        (let buf = take bufsize (drop (f_pos source) (f_data source))
         in if buf = [] then (out, None)
            else if peer = Some 0 then (out, Some ConnectionResetError)
            else copyfileobj bufsize (source\<lparr>f_pos := f_pos source + length buf\<rparr>)
                   (map_option (\<lambda>k. k - 1) peer) (out @ [Body buf])))"
  by pat_completeness auto
termination
  by (relation "measure (\<lambda>(bufsize, source, peer, out). length (f_data source) - f_pos source)")
     auto

declare copyfileobj.simps [simp del]

definition copyfile ::
  "runtime \<Rightarrow> (string \<rightharpoonup> string) \<Rightarrow> nat \<Rightarrow> fileobj \<Rightarrow> nat option \<Rightarrow> wire list
     \<Rightarrow> wire list \<times> pyerror option" where
  \<comment> \<open>\<open>FileShareHandler.copyfile(source, outputfile)\<close>\<close>
  "copyfile u headers bufsize source peer out =
     (case (case headers ''Range'' of None \<Rightarrow> None
            | Some range_header \<Rightarrow> match_range u range_header) of
        Some (g1, g2) \<Rightarrow>
          (case py_int u g1 of
             None \<Rightarrow> (out, Some ValueError)
           | Some start \<Rightarrow>
               if g2 \<noteq> [] then
                 (case py_int u g2 of
                    None \<Rightarrow> (out, Some ValueError)
                  | Some endpos \<Rightarrow> copyfile_range source peer out (endpos - start + 1))
               else if f_closed source then (out, Some ValueError)
               else copyfile_range source peer out
                      (int (length (f_data source)) - 1 - start + 1))
      | None \<Rightarrow>
          (case copyfileobj bufsize source peer out of
             (out', Some ConnectionResetError) \<Rightarrow> (out', None)
           | r \<Rightarrow> r))"

definition send_head_file ::
  "runtime \<Rightarrow> (string \<rightharpoonup> string) \<Rightarrow> string \<Rightarrow> string \<Rightarrow> string
     \<Rightarrow> pyerror + (wire list \<times> fileobj)" where
  \<comment> \<open>\<open>FileShareHandler.send_head\<close> once the path has resolved to a regular file that
     opened: \<open>data\<close> is its content. On an exception of \<open>range_request\<close> the file is closed
     and the exception goes on.\<close>
  "send_head_file u headers ctype mtime data =
     (let f = \<lparr>f_data = data, f_pos = 0, f_closed = False\<rparr>
      in if headers ''Range'' \<noteq> None then range_request u headers ctype mtime f
         else Inr ([Response 200,
                    Header ''Content-type'' ctype,
                    Header ''Content-Length'' (str_int (int (length data))),
                    Header ''Last-Modified'' mtime,
                    End_headers], f))"

definition do_GET_file ::
  "runtime \<Rightarrow> (string \<rightharpoonup> string) \<Rightarrow> string \<Rightarrow> string \<Rightarrow> nat \<Rightarrow> nat option \<Rightarrow> string
     \<Rightarrow> wire list \<times> pyerror option" where
  \<comment> \<open>the parent class's \<open>do_GET\<close> on a regular file: \<open>f = self.send_head()\<close>, then
     \<open>self.copyfile(f, self.wfile)\<close>; a file object is true whether open or closed. The
     result is what was sent and the exception that ended the request, if one did.\<close>
  "do_GET_file u headers ctype mtime bufsize peer data =
     (case send_head_file u headers ctype mtime data of
        Inl err \<Rightarrow> ([], Some err)
      | Inr (out, f) \<Rightarrow> copyfile u headers bufsize f peer out)"


section \<open>The listing renderer\<close>

text \<open>
  Both pages are a fixed frame of markup, style and script around a part that is built
  from the share list or from the directory; the definitions below are those parts, as
  the lines appended to the list \<open>r\<close>. The page is \<open>'\n'.join(r)\<close>, encoded with
  \<open>errors='surrogateescape'\<close> and sent with status 200.
\<close>

definition share_card :: "nat \<Rightarrow> string \<Rightarrow> string list" where
  \<comment> \<open>the body of the loop of \<open>list_shared_dirs\<close> over \<open>enumerate(shared_dirs, 1)\<close>: the
     lines appended for share number \<open>i\<close> with root \<open>dir_path\<close>; \<open>len\<close> and the slice count
     code points\<close>
  \<open>share_card i dir_path =
     (let dir_name = (if basename dir_path \<noteq> [] then basename dir_path else dir_path);
          cps = codepoints dir_path;
          display_path = (if length cps > 50
                          then ''...'' @ concat (drop (length cps - 47) cps)
                          else dir_path)
      in [''<a href="/share'' @ str_nat i @ ''/" class="dir-item">'',
          ''<div class="folder-icon"></div>'',
          ''<div class="dir-info">'',
          ''<div class="dir-name">'' @ dir_name @ ''</div>'',
          ''<div class="dir-path">'' @ display_path @ ''</div>'',
          ''</div>'',
          ''<div class="arrow">'' @ [CHR 0xE2, CHR 0x86, CHR 0x92] @ ''</div>'',
          ''</a>''])\<close>

definition list_shared_dirs :: "string list \<Rightarrow> string list" where
  \<comment> \<open>the cards of the root page, between \<open><div class="dir-list">\<close> and its end\<close>
  "list_shared_dirs shared_dirs =
     concat (map (\<lambda>(i, dir_path). share_card i dir_path)
                 (zip [1 ..< Suc (length shared_dirs)] shared_dirs))"

definition PREVIEW_EXTENSIONS :: "string list" where
  "PREVIEW_EXTENSIONS =
     [''.txt'', ''.log'', ''.py'', ''.js'', ''.css'', ''.html'', ''.htm'', ''.json'', ''.xml'',
      ''.md'', ''.ini'', ''.cfg'', ''.yml'', ''.yaml'',
      ''.png'', ''.jpg'', ''.jpeg'', ''.gif'', ''.bmp'', ''.webp'', ''.svg'',
      ''.mp3'', ''.wav'', ''.ogg'', ''.aac'',
      ''.mp4'', ''.webm'', ''.mov'', ''.avi'', ''.mkv'', ''.flv'']"

definition entry_line :: "runtime \<Rightarrow> (string \<rightharpoonup> node) \<Rightarrow> string \<Rightarrow> string \<Rightarrow> string option" where
  \<comment> \<open>the body of the loop of \<open>list_directory\<close> over the sorted names: the list item of
     one entry; \<open>None\<close> when \<open>quote\<close> raises\<close>
  \<open>entry_line u fs path name =
     (let fullname = join path name;
          is_dir = isdir fs fullname;
          display_name = (if is_dir then name @ ''/'' else name);
          linkname = (if is_dir then name @ ''/'' else name)
      in case quote linkname of
           None \<Rightarrow> None
         | Some quoted_link \<Rightarrow>
             (let ext = lower u (snd (splitext name));
                  escaped_display_name = escape display_name
              in if is_dir then
                   Some (''<li><a href="'' @ quoted_link @ ''">'' @ escaped_display_name
                           @ ''</a></li>'')
                 else if ext \<in> set PREVIEW_EXTENSIONS then
                   Some (''<li><a href="'' @ quoted_link @ ''">'' @ escaped_display_name
                           @ ''</a></li>'')
                 else
                   (let js_escaped =
                          replace_char (CHR 0x22) [CHR 0x5C, CHR 0x22]
                            (replace_char (CHR 0x27) [CHR 0x5C, CHR 0x27] escaped_display_name)
                    in Some (''<li><a href="'' @ quoted_link
                               @ ''" onclick="return confirmDownload('' @ [CHR 0x27]
                               @ js_escaped @ [CHR 0x27] @ '')">'' @ escaped_display_name
                               @ ''</a></li>''))))\<close>

fun entry_lines :: "runtime \<Rightarrow> (string \<rightharpoonup> node) \<Rightarrow> string \<Rightarrow> string list \<Rightarrow> string list option" where
  \<comment> \<open>the loop \<open>for name in names\<close>\<close>
  "entry_lines u fs path [] = Some []"
| "entry_lines u fs path (name # names) =
     (case entry_line u fs path name of
        None \<Rightarrow> None
      | Some line \<Rightarrow>
          (case entry_lines u fs path names of
             None \<Rightarrow> None
           | Some r \<Rightarrow> Some (line # r)))"

definition list_directory ::
  "runtime \<Rightarrow> (string \<rightharpoonup> node) \<Rightarrow> (string \<Rightarrow> string list option) \<Rightarrow> string \<Rightarrow> string
     \<Rightarrow> pyerror + string list option" where
  \<comment> \<open>\<open>FileShareHandler.list_directory(path)\<close> for the request path \<open>current_url\<close>: the
     lines of the \<open>file-list\<close> block. \<open>os.listdir\<close> is \<open>listdir\<close>, \<open>None\<close> when it raises;
     \<open>Inr None\<close> is the return after the 404 has been sent, and \<open>Inl\<close> an exception that
     leaves the method. The heading starts with the two characters of the word for
     directory and a full-width colon.\<close>
  \<open>list_directory u fs listdir current_url path =
     (case listdir path of
        None \<Rightarrow> (case send_error 404 of Some err \<Rightarrow> Inl err | None \<Rightarrow> Inr None)
      | Some unsorted \<Rightarrow>
          (let names = sort_names u fs path unsorted
           in case unquote current_url of
                None \<Rightarrow> Inl UnicodeDecodeError
              | Some whole \<Rightarrow>
                  (case (case match_share_path u current_url of
                           Some (g1, g2) \<Rightarrow>
                             (case unquote g2 of
                                None \<Rightarrow> None
                              | Some rel_path \<Rightarrow>
                                  Some (g1, if rel_path \<noteq> [] then ''share'' @ g1 @ ''/'' @ rel_path
                                            else ''share'' @ g1 @ ''/''))
                         | None \<Rightarrow> Some (''1'', whole)) of
                     None \<Rightarrow> Inl UnicodeDecodeError
                   | Some (share_index, displaypath) \<Rightarrow>
                       (case entry_lines u fs path names of
                          None \<Rightarrow> Inl UnicodeEncodeError
                        | Some entries \<Rightarrow>
                            Inr (Some
                              ([''<div class="file-list">'',
                                ''<h2>'' @ [CHR 0xE7, CHR 0x9B, CHR 0xAE, CHR 0xE5, CHR 0xBD,
                                           CHR 0x95, CHR 0xEF, CHR 0xBC, CHR 0x9A]
                                  @ displaypath @ ''</h2>'',
                                ''<ul>'']
                               @ (if displaypath \<noteq> ''share'' @ share_index @ ''/''
                                  then [''<li><a href="../">../</a></li>''] else [])
                               @ entries
                               @ [''</ul>'', ''</div>'']))))))\<close>

definition encodable_page :: "string list \<Rightarrow> bool" where
  \<comment> \<open>whether \<open>'\n'.join(r).encode('utf-8', 'surrogateescape')\<close> returns: every lone
     surrogate of the lines is one of U+DC80 to U+DCFF, which stand for undecodable bytes
     of a file name. Otherwise it raises and no page is sent.\<close>
  "encodable_page r =
     list_all (\<lambda>line. list_all (\<lambda>cp. case cp of
                                       [a, b, c] \<Rightarrow>
                                         (if a = CHR 0xED \<and> CHR 0xA0 \<le> b
                                          then b = CHR 0xB2 \<or> b = CHR 0xB3 else True)
                                     | _ \<Rightarrow> True)
                              (codepoints line)) r"

section \<open>The server state and its environment\<close>

text \<open>
  The sentinel files and the mailbox files are opened by bare name in the working
  directory. The names and the status texts that are Chinese in the source are given by
  their UTF-8 bytes.
\<close>

definition SHUTDOWN_FILE :: string where
  \<comment> \<open>the schedule sentinel, two characters (shut down) and \<open>.txt\<close>\<close>
  "SHUTDOWN_FILE = [CHR 0xE5, CHR 0x85, CHR 0xB3, CHR 0xE6, CHR 0x9C, CHR 0xBA] @ ''.txt''"

definition CANCEL_FILE :: string where
  \<comment> \<open>the cancel sentinel, four characters (cancel shutting down) and \<open>.txt\<close>\<close>
  "CANCEL_FILE =
     [CHR 0xE5, CHR 0x8F, CHR 0x96, CHR 0xE6, CHR 0xB6, CHR 0x88,
      CHR 0xE5, CHR 0x85, CHR 0xB3, CHR 0xE6, CHR 0x9C, CHR 0xBA] @ ''.txt''"

definition LEGACY_PREFIX :: string where
  \<comment> \<open>the part of the glob pattern of \<open>cancel_shutdown\<close> before its \<open>*\<close>\<close>
  "LEGACY_PREFIX =
     [CHR 0xE7, CHR 0x94, CHR 0xB5, CHR 0xE8, CHR 0x84, CHR 0x91,
      CHR 0xE5, CHR 0xB0, CHR 0x86, CHR 0xE4, CHR 0xBA, CHR 0x8E]"

definition LEGACY_SUFFIX :: string where
  \<comment> \<open>the part of the glob pattern of \<open>cancel_shutdown\<close> after its \<open>*\<close>\<close>
  "LEGACY_SUFFIX =
     [CHR 0xE7, CHR 0xA7, CHR 0x92, CHR 0xE5, CHR 0x90, CHR 0x8E,
      CHR 0xE5, CHR 0x85, CHR 0xB3, CHR 0xE6, CHR 0x9C, CHR 0xBA] @ ''.txt''"

definition STATUS_PREFIX :: string where
  \<comment> \<open>the status text before the number of seconds\<close>
  "STATUS_PREFIX =
     [CHR 0xE7, CHR 0x94, CHR 0xB5, CHR 0xE8, CHR 0x84, CHR 0x91, CHR 0xE7, CHR 0xAB, CHR 0xAF,
      CHR 0xE5, CHR 0xB0, CHR 0x86, CHR 0xE4, CHR 0xBA, CHR 0x8E]"

definition STATUS_SUFFIX :: string where
  \<comment> \<open>the status text after the number of seconds\<close>
  "STATUS_SUFFIX =
     [CHR 0xE7, CHR 0xA7, CHR 0x92, CHR 0xE5, CHR 0x90, CHR 0x8E,
      CHR 0xE5, CHR 0x85, CHR 0xB3, CHR 0xE6, CHR 0x9C, CHR 0xBA]"

definition STATUS_CANCELLED :: string where
  \<comment> \<open>the status text after a cancel request\<close>
  "STATUS_CANCELLED =
     [CHR 0xE7, CHR 0x94, CHR 0xB5, CHR 0xE8, CHR 0x84, CHR 0x91, CHR 0xE7, CHR 0xAB, CHR 0xAF,
      CHR 0xE5, CHR 0xB7, CHR 0xB2, CHR 0xE5, CHR 0x8F, CHR 0x96, CHR 0xE6, CHR 0xB6, CHR 0x88,
      CHR 0xE5, CHR 0x85, CHR 0xB3, CHR 0xE6, CHR 0x9C, CHR 0xBA]"

definition UNKNOWN_IP :: string where
  \<comment> \<open>the default sender address of \<open>check_message\<close>\<close>
  "UNKNOWN_IP = [CHR 0xE6, CHR 0x9C, CHR 0xAA, CHR 0xE7, CHR 0x9F, CHR 0xA5] @ ''IP''"

definition TO_MOBILE_FILE :: string where
  \<comment> \<open>written by the window's send-text action, read by \<open>/api/check_message\<close>\<close>
  "TO_MOBILE_FILE = ''text_message.json''"

definition TO_SERVER_FILE :: string where
  \<comment> \<open>written by \<open>/api/send_text\<close>, read and removed by the window's timer\<close>
  "TO_SERVER_FILE = ''mobile_text_message.json''"

text \<open>
  What the program prints and the commands it runs are recorded in a trace. The messages
  are named after what they say. The standard output is taken to accept every text the
  program prints.
\<close>

datatype message =
    Cancel_file_seen
  | Removed string
  | Remove_failed string
  | Read_command string
  | Scheduling int
  | Schedule_failed
  | Not_positive_integer
  | Command_error
  | Monitor_error
  | Windows_scheduled int
  | Windows_schedule_failed string
  | Posix_scheduled int
  | Unsupported_os
  | Schedule_error
  | Windows_cancelled
  | No_shutdown_in_progress
  | Windows_cancel_failed string
  | Posix_cancelled
  | Unsupported_os_cancel
  | Cancel_error
  | Text_received string string
  | Text_confirmed

datatype event = Printed message | Ran "string list"

record env =
  e_cwd :: string
  e_platform :: string
  e_runtime :: runtime
  e_run :: "string list \<Rightarrow> (int \<times> string) option"
  e_listdir_fails :: bool
  e_read_fails :: "string \<Rightarrow> bool"
  e_write_fails :: "string \<Rightarrow> bool"
  e_remove_fails :: "string \<Rightarrow> bool"
  e_makedirs :: "(string \<rightharpoonup> node) \<Rightarrow> string \<Rightarrow> (string \<rightharpoonup> node) option"

text \<open>
  The environment is what the operating system and the interpreter decide: the working
  directory, \<open>sys.platform\<close>, the tables of the runtime, the return code and error output
  of \<open>subprocess.run\<close> on a command (\<open>None\<close> when it raises), whether listing the working
  directory raises, the paths on which opening for reading, opening for writing and
  \<open>os.remove\<close> raise, and the file system that \<open>os.makedirs\<close> leaves (\<open>None\<close> when it
  raises).
\<close>

record server =
  srv_fs :: "string \<rightharpoonup> node"
  srv_shared_dirs :: "string list"
  srv_shutdown_status :: string
  srv_trace :: "event list"

definition linesep :: "env \<Rightarrow> string \<Rightarrow> string" where
  \<comment> \<open>what writing in text mode makes of the line ends: \<open>os.linesep\<close> for each line feed\<close>
  "linesep e s =
     (if e_platform e = ''win32'' then replace_char (CHR 0x0A) [CHR 0x0D, CHR 0x0A] s else s)"

definition open_w :: "env \<Rightarrow> (string \<rightharpoonup> node) \<Rightarrow> string \<Rightarrow> (string \<rightharpoonup> node) option" where
  \<comment> \<open>\<open>open(p, 'w')\<close> or \<open>open(p, 'wb')\<close>: the file is created or truncated; \<open>None\<close> when
     opening raises\<close>
  "open_w e fs p =
     (if e_write_fails e p \<or> fs p = Some Dir then None else Some (fs(p \<mapsto> File [])))"

definition remove_file :: "env \<Rightarrow> (string \<rightharpoonup> node) \<Rightarrow> string \<Rightarrow> (string \<rightharpoonup> node) option" where
  \<comment> \<open>\<open>os.remove(p)\<close>; \<open>None\<close> when it raises\<close>
  "remove_file e fs p =
     (case fs p of
        Some (File c) \<Rightarrow> if e_remove_fails e p then None else Some (fs(p := None))
      | _ \<Rightarrow> None)"

definition read_text :: "env \<Rightarrow> (string \<rightharpoonup> node) \<Rightarrow> string \<Rightarrow> string option" where
  \<comment> \<open>\<open>open(p, 'r', encoding='utf-8').read()\<close>: the bytes decoded strictly, with the line
     ends of text mode; \<open>None\<close> when opening or decoding raises\<close>
  "read_text e fs p =
     (case fs p of
        Some (File bytes) \<Rightarrow>
          if e_read_fails e p \<or> \<not> valid_utf8 False bytes then None
          else Some (universal_newlines bytes)
      | _ \<Rightarrow> None)"

definition read_json :: "env \<Rightarrow> (string \<rightharpoonup> node) \<Rightarrow> string \<Rightarrow> json option" where
  \<comment> \<open>\<open>json.load(open(p, 'r', encoding='utf-8'))\<close>; \<open>None\<close> when it raises\<close>
  "read_json e fs p =
     (case read_text e fs p of
        None \<Rightarrow> None
      | Some text \<Rightarrow> rt_json_loads (e_runtime e) text)"

section \<open>The control channel\<close>

definition schedule_shutdown :: "env \<Rightarrow> int \<Rightarrow> event list \<times> bool" where
  \<comment> \<open>\<open>schedule_shutdown(seconds)\<close>: what it prints and runs, and what it returns. The
     monitor passes a number that \<open>int\<close> has just read, so \<open>str\<close> does not meet its limit.\<close>
  "schedule_shutdown e seconds =
     (if e_platform e = ''win32'' then
        (case e_run e [''shutdown'', ''/s'', ''/t'', str_int seconds] of
           None \<Rightarrow> ([Printed Schedule_error], False)
         | Some (returncode, stderr) \<Rightarrow>
             if returncode = 0
             then ([Ran [''shutdown'', ''/s'', ''/t'', str_int seconds],
                    Printed (Windows_scheduled seconds)], True)
             else ([Ran [''shutdown'', ''/s'', ''/t'', str_int seconds],
                    Printed (Windows_schedule_failed stderr)], False))
      else if e_platform e \<in> {''darwin'', ''linux'', ''linux2''} then
        ([Printed (Posix_scheduled seconds)], True)
      else ([Printed Unsupported_os], False))"

definition is_legacy_hint :: "env \<Rightarrow> string \<Rightarrow> bool" where
  \<comment> \<open>the names that the glob pattern of \<open>cancel_shutdown\<close> matches in the working
     directory. On Windows \<open>fnmatch\<close> compares after \<open>os.path.normcase\<close>: only the letters
     of \<open>.txt\<close> have another case.\<close>
  "is_legacy_hint e p =
     (startswith p LEGACY_PREFIX
      \<and> endswith (if e_platform e = ''win32'' then map lower_char p else p) LEGACY_SUFFIX
      \<and> length LEGACY_PREFIX + length LEGACY_SUFFIX \<le> length p \<and> CHR ''/'' \<notin> set p)"

definition remove_legacy_hints :: "env \<Rightarrow> (string \<rightharpoonup> node) \<Rightarrow> (string \<rightharpoonup> node)" where
  \<comment> \<open>the loop of \<open>cancel_shutdown\<close> over the legacy hint files: each is removed unless
     \<open>os.remove\<close> raises; the line printed per file is not recorded\<close>
  "remove_legacy_hints e fs =
     (\<lambda>p. if is_legacy_hint e p \<and> remove_file e fs p \<noteq> None then None else fs p)"

definition cancel_shutdown :: "env \<Rightarrow> (string \<rightharpoonup> node) \<Rightarrow> event list \<times> (string \<rightharpoonup> node) \<times> bool" where
  \<comment> \<open>\<open>cancel_shutdown()\<close>\<close>
  "cancel_shutdown e fs =
     (if e_platform e = ''win32'' then
        (case e_run e [''shutdown'', ''/a''] of
           None \<Rightarrow> ([Printed Cancel_error], fs, False)
         | Some (returncode, stderr) \<Rightarrow>
             ([Ran [''shutdown'', ''/a''],
               Printed (if returncode = 0 then Windows_cancelled
                        else if contains stderr ''There is no shutdown in progress''
                        then No_shutdown_in_progress
                        else Windows_cancel_failed stderr)],
              remove_legacy_hints e fs, True))
      else if e_platform e \<in> {''darwin'', ''linux'', ''linux2''} then
        ([Printed Posix_cancelled], remove_legacy_hints e fs, True)
      else ([Printed Unsupported_os_cancel], remove_legacy_hints e fs, True))"

definition is_positive_integer :: "runtime \<Rightarrow> string \<Rightarrow> pyerror + bool" where
  \<comment> \<open>\<open>is_positive_integer(s)\<close>, that is \<open>s.isdigit() and int(s) > 0\<close>; \<open>Inl\<close> when \<open>int\<close>
     raises\<close>
  "is_positive_integer u s =
     (if isdigit u s then
        (case py_int u s of None \<Rightarrow> Inl ValueError | Some n \<Rightarrow> Inr (n > 0))
      else Inr False)"

definition monitor_schedule :: "env \<Rightarrow> server \<Rightarrow> server" where
  \<comment> \<open>the second half of a cycle of \<open>shutdown_monitor\<close>, entered when the listing of the
     working directory held the schedule sentinel; every exception of the block is
     caught and reported\<close>
  "monitor_schedule e st =
     (case read_text e (srv_fs st) SHUTDOWN_FILE of
        None \<Rightarrow> st\<lparr>srv_trace := srv_trace st @ [Printed Command_error]\<rparr>
      | Some text \<Rightarrow>
          (let content = strip (e_runtime e) text;
               tr = srv_trace st @ [Printed (Read_command content)]
           in case is_positive_integer (e_runtime e) content of
                Inl err \<Rightarrow> st\<lparr>srv_trace := tr @ [Printed Command_error]\<rparr>
              | Inr False \<Rightarrow> st\<lparr>srv_trace := tr @ [Printed Not_positive_integer]\<rparr>
              | Inr True \<Rightarrow>
                  (case py_int (e_runtime e) content of
                     None \<Rightarrow> st\<lparr>srv_trace := tr @ [Printed Command_error]\<rparr>
                   | Some seconds \<Rightarrow>
                       (let (evs, ok) = schedule_shutdown e seconds;
                            tr = tr @ [Printed (Scheduling seconds)] @ evs
                        in if ok then
                             (case remove_file e (srv_fs st) SHUTDOWN_FILE of
                                Some fs' \<Rightarrow>
                                  st\<lparr>srv_fs := fs',
                                     srv_trace := tr @ [Printed (Removed SHUTDOWN_FILE)]\<rparr>
                              | None \<Rightarrow> st\<lparr>srv_trace := tr @ [Printed Command_error]\<rparr>)
                           else st\<lparr>srv_trace := tr @ [Printed Schedule_failed]\<rparr>))))"

definition monitor_cancel :: "env \<Rightarrow> server \<Rightarrow> server" where
  \<comment> \<open>the first half of a cycle, entered when the listing held the cancel sentinel\<close>
  "monitor_cancel e st =
     (case cancel_shutdown e (srv_fs st) of
        (evs, fs1, ok) \<Rightarrow>
          (let tr = srv_trace st @ [Printed Cancel_file_seen] @ evs
           in case remove_file e fs1 CANCEL_FILE of
                Some fs2 \<Rightarrow> st\<lparr>srv_fs := fs2, srv_trace := tr @ [Printed (Removed CANCEL_FILE)]\<rparr>
              | None \<Rightarrow> st\<lparr>srv_fs := fs1, srv_trace := tr @ [Printed (Remove_failed CANCEL_FILE)]\<rparr>))"

definition monitor_cycle :: "env \<Rightarrow> server \<Rightarrow> server" where
  \<comment> \<open>the body of the \<open>while True\<close> loop of \<open>shutdown_monitor\<close>, up to the sleep; \<open>files\<close>
     is read once, before either sentinel is handled\<close>
  "monitor_cycle e st =
     (if e_listdir_fails e then st\<lparr>srv_trace := srv_trace st @ [Printed Monitor_error]\<rparr>
      else
        (let cancel_listed = (srv_fs st CANCEL_FILE \<noteq> None);
             schedule_listed = (srv_fs st SHUTDOWN_FILE \<noteq> None);
             st1 = (if cancel_listed then monitor_cancel e st else st)
         in if schedule_listed then monitor_schedule e st1 else st1))"

fun shutdown_monitor :: "env \<Rightarrow> nat \<Rightarrow> server \<Rightarrow> server" where
  \<comment> \<open>\<open>shutdown_monitor()\<close> never returns; this is the state after its first \<open>n\<close> cycles
     when nothing else touches the state in between\<close>
  "shutdown_monitor e 0 st = st"
| "shutdown_monitor e (Suc n) st = shutdown_monitor e n (monitor_cycle e st)"

section \<open>The request dispatcher\<close>

datatype body =
    Unreadable    \<comment> \<open>\<open>int(Content-Length)\<close> or the UTF-8 decoding of the body raises\<close>
  | Not_json      \<comment> \<open>\<open>json.loads\<close> raises\<close>
  | Parsed json   \<comment> \<open>what \<open>json.loads\<close> returns\<close>

datatype field = Bytes string | Chars string

record request =
  rq_path :: string
  rq_headers :: "string \<rightharpoonup> string"
  rq_body :: body
  rq_form :: "(string \<rightharpoonup> field list) option"
  rq_client_ip :: string
  rq_time :: string

text \<open>
  \<open>rq_form\<close> is what \<open>parse_multipart\<close> returns for an upload (\<open>None\<close> when parsing
  raises): the values of a field are \<open>bytes\<close> for a part with a file name and \<open>str\<close>
  otherwise. \<open>rq_client_ip\<close> is the address of the peer and \<open>rq_time\<close> is the literal of
  \<open>time.time()\<close>. A handler answers with \<open>send_response\<close> and a JSON body, with
  \<open>send_error\<close>, or not at all because an exception left it.
\<close>

datatype reply = Success nat json | Failure nat | Escaped

definition SUCCESS :: json where
  "SUCCESS = JObj [(''status'', JStr ''success'')]"

definition refuse :: "nat \<Rightarrow> reply" where
  \<comment> \<open>\<open>self.send_error(code, ...)\<close> outside a \<open>try\<close>\<close>
  "refuse code = (case send_error code of None \<Rightarrow> Failure code | Some err \<Rightarrow> Escaped)"

definition on_exception :: reply where
  \<comment> \<open>the handler \<open>except Exception as e: self.send_error(500, str(e))\<close> of an endpoint\<close>
  "on_exception = refuse 500"

definition reject :: "nat \<Rightarrow> reply" where
  \<comment> \<open>\<open>self.send_error(code, ...)\<close> inside the \<open>try\<close> of an endpoint: what it raises is
     caught by that handler\<close>
  "reject code = (case send_error code of None \<Rightarrow> Failure code | Some err \<Rightarrow> on_exception)"

definition get_value :: "json \<Rightarrow> string \<Rightarrow> json \<Rightarrow> json option" where
  \<comment> \<open>\<open>data.get(key, default)\<close>; \<open>None\<close> when \<open>data\<close> is not a dict and the call raises\<close>
  "get_value data key dflt =
     (case data of
        JObj kvs \<Rightarrow> (case map_of kvs key of None \<Rightarrow> Some dflt | Some v \<Rightarrow> Some v)
      | _ \<Rightarrow> None)"

definition get_stripped :: "runtime \<Rightarrow> json \<Rightarrow> string \<Rightarrow> string option" where
  \<comment> \<open>\<open>data.get(key, '').strip()\<close>; \<open>None\<close> when \<open>data\<close> is not a dict or the value is
     not a string, and the call raises\<close>
  "get_stripped u data key =
     (case get_value data key (JStr []) of Some (JStr s) \<Rightarrow> Some (strip u s) | _ \<Rightarrow> None)"

definition api_send_text :: "env \<Rightarrow> request \<Rightarrow> server \<Rightarrow> reply \<times> server" where
  \<comment> \<open>\<open>do_POST\<close> on \<open>/api/send_text\<close>. \<open>json.dump\<close> writes the object piece by piece: a
     text with a lone surrogate cannot be encoded, and the file keeps what came before
     it.\<close>
  \<open>api_send_text e rq st =
     (case rq_body rq of
        Unreadable \<Rightarrow> (Escaped, st)
      | Not_json \<Rightarrow> (on_exception, st)
      | Parsed data \<Rightarrow>
          (case get_stripped (e_runtime e) data ''text'' of
             None \<Rightarrow> (on_exception, st)
           | Some text \<Rightarrow>
               if text = [] then (reject 400, st)
               else
                 (let client_ip = rq_client_ip rq;
                      message_data =
                        JObj [(''text'', JStr text), (''sender_ip'', JStr client_ip),
                              (''timestamp'', JFloat (rq_time rq)),
                              (''sender_type'', JStr ''mobile'')]
                  in case open_w e (srv_fs st) TO_SERVER_FILE of
                       None \<Rightarrow> (on_exception, st)
                     | Some fs' \<Rightarrow>
                         if \<not> valid_utf8 False text then
                           (on_exception,
                            st\<lparr>srv_fs := fs'(TO_SERVER_FILE \<mapsto>
                                 File (linesep e ([CHR ''{'', CHR 0x0A] @ ''  "text": '')))\<rparr>)
                         else
                           (Success 200 SUCCESS,
                            st\<lparr>srv_fs := fs'(TO_SERVER_FILE \<mapsto>
                                 File (linesep e (rt_json_dumps (e_runtime e) message_data))),
                               srv_trace := srv_trace st
                                 @ [Printed (Text_received client_ip
                                      (concat (take 50 (codepoints text))))]\<rparr>))))\<close>

definition api_check_message :: "env \<Rightarrow> server \<Rightarrow> reply \<times> server" where
  \<comment> \<open>\<open>do_POST\<close> on \<open>/api/check_message\<close>\<close>
  "api_check_message e st =
     (if exists_path (srv_fs st) TO_MOBILE_FILE then
        (case read_json e (srv_fs st) TO_MOBILE_FILE of
           None \<Rightarrow> (on_exception, st)
         | Some message_data \<Rightarrow>
             (case (get_value message_data ''text'' (JStr []),
                    get_value message_data ''sender_ip'' (JStr UNKNOWN_IP)) of
                (Some text, Some sender_ip) \<Rightarrow>
                  (Success 200
                     (JObj [(''has_message'', JBool True), (''text'', text),
                            (''sender_ip'', sender_ip)]), st)
              | _ \<Rightarrow> (on_exception, st)))
      else (Success 200 (JObj [(''has_message'', JBool False)]), st))"

definition api_confirm_message :: "env \<Rightarrow> server \<Rightarrow> reply \<times> server" where
  \<comment> \<open>\<open>do_POST\<close> on \<open>/api/confirm_message\<close>\<close>
  "api_confirm_message e st =
     (if exists_path (srv_fs st) TO_MOBILE_FILE then
        (case remove_file e (srv_fs st) TO_MOBILE_FILE of
           None \<Rightarrow> (on_exception, st)
         | Some fs' \<Rightarrow>
             (Success 200 SUCCESS,
              st\<lparr>srv_fs := fs', srv_trace := srv_trace st @ [Printed Text_confirmed]\<rparr>))
      else (Success 200 SUCCESS, st))"

definition str_seconds :: "runtime \<Rightarrow> json \<Rightarrow> string option" where
  \<comment> \<open>\<open>str(seconds)\<close> for a value that passed \<open>isinstance(seconds, int)\<close>; \<open>None\<close> when it
     raises\<close>
  "str_seconds u v =
     (case v of
        JInt n \<Rightarrow> py_str u n
      | JBool b \<Rightarrow> Some (if b then ''True'' else ''False'')
      | _ \<Rightarrow> None)"

definition valid_seconds :: "json \<Rightarrow> bool" where
  \<comment> \<open>the negation of \<open>not isinstance(seconds, int) or seconds <= 0\<close>; \<open>bool\<close> is a
     subclass of \<open>int\<close> with \<open>True == 1\<close> and \<open>False == 0\<close>\<close>
  "valid_seconds v =
     (case v of JInt n \<Rightarrow> \<not> n \<le> 0 | JBool b \<Rightarrow> \<not> (if b then (1::int) else 0) \<le> 0 | _ \<Rightarrow> False)"

definition api_shutdown :: "env \<Rightarrow> request \<Rightarrow> server \<Rightarrow> reply \<times> server" where
  \<comment> \<open>\<open>do_POST\<close> on \<open>/api/shutdown\<close>; the sentinel is opened before \<open>str(seconds)\<close> is
     computed\<close>
  "api_shutdown e rq st =
     (case rq_body rq of
        Unreadable \<Rightarrow> (Escaped, st)
      | Not_json \<Rightarrow> (on_exception, st)
      | Parsed data \<Rightarrow>
          (case get_value data ''seconds'' JNull of
             None \<Rightarrow> (on_exception, st)
           | Some seconds \<Rightarrow>
               if \<not> valid_seconds seconds then (reject 400, st)
               else
                 (case open_w e (srv_fs st) SHUTDOWN_FILE of
                    None \<Rightarrow> (on_exception, st)
                  | Some fs' \<Rightarrow>
                      (case str_seconds (e_runtime e) seconds of
                         None \<Rightarrow> (on_exception, st\<lparr>srv_fs := fs'\<rparr>)
                       | Some s \<Rightarrow>
                           (Success 200 SUCCESS,
                            st\<lparr>srv_fs := fs'(SHUTDOWN_FILE \<mapsto> File s),
                               srv_shutdown_status := STATUS_PREFIX @ s @ STATUS_SUFFIX\<rparr>)))))"

definition api_cancel_shutdown :: "env \<Rightarrow> server \<Rightarrow> reply \<times> server" where
  \<comment> \<open>\<open>do_POST\<close> on \<open>/api/cancel_shutdown\<close>\<close>
  "api_cancel_shutdown e st =
     (case open_w e (srv_fs st) CANCEL_FILE of
        None \<Rightarrow> (on_exception, st)
      | Some fs' \<Rightarrow>
          (Success 200 SUCCESS, st\<lparr>srv_fs := fs', srv_shutdown_status := STATUS_CANCELLED\<rparr>))"

definition unsafe_name :: "string \<Rightarrow> bool" where
  \<comment> \<open>\<open>'..' in name or '/' in name or '\\' in name\<close>\<close>
  "unsafe_name name = (contains name ''..'' \<or> contains name ''/'' \<or> contains name [CHR 0x5C])"

definition target_path :: "env \<Rightarrow> request \<Rightarrow> server \<Rightarrow> string \<Rightarrow> pyerror + string option" where
  \<comment> \<open>the path that \<open>create_file\<close>, \<open>create_dir\<close> and \<open>upload\<close> build for a name from the
     \<open>Referer\<close> header, or from the first share without one. \<open>Inr None\<close> stands for the two
     places that send 400, for an invalid current directory and for an empty share list;
     \<open>Inl\<close> is an exception of \<open>translate_path\<close>.\<close>
  "target_path e rq st name =
     (let referer = (case rq_headers rq ''Referer'' of None \<Rightarrow> [] | Some r \<Rightarrow> r)
      in case match_referer (e_runtime e) referer of
           Some current_path \<Rightarrow>
             (case translate_path (e_runtime e) (e_cwd e) (srv_shared_dirs st) current_path of
                Inl err \<Rightarrow> Inl err
              | Inr (Some path) \<Rightarrow>
                  if path \<noteq> [] \<and> isdir (srv_fs st) path then Inr (Some (join path name))
                  else Inr None
              | Inr None \<Rightarrow> Inr None)
         | None \<Rightarrow>
             if srv_shared_dirs st \<noteq> [] then Inr (Some (join (hd (srv_shared_dirs st)) name))
             else Inr None)"

definition api_create_file :: "env \<Rightarrow> request \<Rightarrow> server \<Rightarrow> reply \<times> server" where
  \<comment> \<open>\<open>do_POST\<close> on \<open>/api/create_file\<close>. Opening the file creates it empty; writing a
     content that is not a string, or a string that cannot be encoded, then raises, and
     the empty file stays.\<close>
  "api_create_file e rq st =
     (case rq_body rq of
        Unreadable \<Rightarrow> (Escaped, st)
      | Not_json \<Rightarrow> (on_exception, st)
      | Parsed data \<Rightarrow>
          (case (get_stripped (e_runtime e) data ''filename'',
                 get_value data ''content'' (JStr [])) of
             (Some filename, Some content) \<Rightarrow>
               if \<not> endswith filename ''.txt'' then (reject 400, st)
               else if unsafe_name filename then (reject 400, st)
               else
                 (case target_path e rq st filename of
                    Inl err \<Rightarrow> (on_exception, st)
                  | Inr None \<Rightarrow> (reject 400, st)
                  | Inr (Some filepath) \<Rightarrow>
                      if exists_path (srv_fs st) filepath then (reject 409, st)
                      else
                        (case open_w e (srv_fs st) filepath of
                           None \<Rightarrow> (on_exception, st)
                         | Some fs' \<Rightarrow>
                             (case content of
                                JStr s \<Rightarrow>
                                  if valid_utf8 False s then
                                    (Success 201 SUCCESS,
                                     st\<lparr>srv_fs := fs'(filepath \<mapsto> File (linesep e s))\<rparr>)
                                  else (on_exception, st\<lparr>srv_fs := fs'\<rparr>)
                              | _ \<Rightarrow> (on_exception, st\<lparr>srv_fs := fs'\<rparr>))))
           | _ \<Rightarrow> (on_exception, st)))"

definition api_create_dir :: "env \<Rightarrow> request \<Rightarrow> server \<Rightarrow> reply \<times> server" where
  \<comment> \<open>\<open>do_POST\<close> on \<open>/api/create_dir\<close>\<close>
  "api_create_dir e rq st =
     (case rq_body rq of
        Unreadable \<Rightarrow> (Escaped, st)
      | Not_json \<Rightarrow> (on_exception, st)
      | Parsed data \<Rightarrow>
          (case get_stripped (e_runtime e) data ''dirname'' of
             None \<Rightarrow> (on_exception, st)
           | Some dirname \<Rightarrow>
               if dirname = [] then (reject 400, st)
               else if unsafe_name dirname then (reject 400, st)
               else
                 (case target_path e rq st dirname of
                    Inl err \<Rightarrow> (on_exception, st)
                  | Inr None \<Rightarrow> (reject 400, st)
                  | Inr (Some dirpath) \<Rightarrow>
                      if exists_path (srv_fs st) dirpath then (reject 409, st)
                      else
                        (case e_makedirs e (srv_fs st) dirpath of
                           None \<Rightarrow> (on_exception, st)
                         | Some fs' \<Rightarrow> (Success 201 SUCCESS, st\<lparr>srv_fs := fs'\<rparr>)))))"

definition api_upload :: "env \<Rightarrow> request \<Rightarrow> server \<Rightarrow> reply \<times> server" where
  \<comment> \<open>\<open>do_POST\<close> on \<open>/api/upload\<close>. A file name that arrived as \<open>bytes\<close> fails at
     \<open>'..' in filename\<close>, and a content that arrived as \<open>str\<close> fails at the write, after the
     file was created.\<close>
  "api_upload e rq st =
     (let content_type = (case rq_headers rq ''Content-Type'' of None \<Rightarrow> [] | Some c \<Rightarrow> c)
      in if \<not> contains content_type ''multipart/form-data'' then (refuse 400, st)
         else
           (case rq_form rq of
              None \<Rightarrow> (on_exception, st)
            | Some form_data \<Rightarrow>
                (case (form_data ''file'', form_data ''filename'') of
                   (Some (file_content # _), Some (raw_name # _)) \<Rightarrow>
                     (case raw_name of
                        Bytes b \<Rightarrow>
                          if b = [] \<or> list_all (\<lambda>c. of_char c \<in> {9, 10, 11, 12, 13, 32 :: nat}) b
                          then (reject 400, st) else (on_exception, st)
                      | Chars raw \<Rightarrow>
                          (let filename = strip (e_runtime e) raw
                           in if filename = [] then (reject 400, st)
                              else if unsafe_name filename then (reject 400, st)
                              else
                                (case target_path e rq st filename of
                                   Inl err \<Rightarrow> (on_exception, st)
                                 | Inr None \<Rightarrow> (reject 400, st)
                                 | Inr (Some filepath) \<Rightarrow>
                                     if exists_path (srv_fs st) filepath then (reject 409, st)
                                     else
                                       (case open_w e (srv_fs st) filepath of
                                          None \<Rightarrow> (on_exception, st)
                                        | Some fs' \<Rightarrow>
                                            (case file_content of
                                               Bytes b \<Rightarrow>
                                                 (Success 201 SUCCESS,
                                                  st\<lparr>srv_fs := fs'(filepath \<mapsto> File b)\<rparr>)
                                             | Chars s \<Rightarrow>
                                                 (on_exception, st\<lparr>srv_fs := fs'\<rparr>))))))
                 | _ \<Rightarrow> (reject 400, st))))"

definition do_POST :: "env \<Rightarrow> request \<Rightarrow> server \<Rightarrow> reply \<times> server" where
  \<comment> \<open>\<open>FileShareHandler.do_POST\<close>\<close>
  "do_POST e rq st =
     (if rq_path rq = ''/api/send_text'' then api_send_text e rq st
      else if rq_path rq = ''/api/check_message'' then api_check_message e st
      else if rq_path rq = ''/api/confirm_message'' then api_confirm_message e st
      else
        (case (if rq_path rq \<in> {''/api/shutdown'', ''/api/cancel_shutdown'', ''/api/create_file'',
                                 ''/api/create_dir'', ''/api/upload'', ''/api/shutdown_status''}
               then Inr True
               else (case translate_path (e_runtime e) (e_cwd e) (srv_shared_dirs st) (rq_path rq) of
                       Inl err \<Rightarrow> Inl err
                     | Inr path \<Rightarrow> Inr (\<not> (path = Some ''/__root__'' \<or> path = None)))) of
           Inl err \<Rightarrow> (Escaped, st)
         | Inr False \<Rightarrow> (refuse 403, st)
         | Inr True \<Rightarrow>
             if rq_path rq = ''/api/shutdown'' then api_shutdown e rq st
             else if rq_path rq = ''/api/cancel_shutdown'' then api_cancel_shutdown e st
             else if rq_path rq = ''/api/create_file'' then api_create_file e rq st
             else if rq_path rq = ''/api/create_dir'' then api_create_dir e rq st
             else if rq_path rq = ''/api/upload'' then api_upload e rq st
             else if rq_path rq = ''/api/shutdown_status''
             then (Success 200 (JObj [(''status'', JStr (srv_shutdown_status st))]), st)
             else (refuse 404, st)))"

section \<open>The window's side of the mailbox\<close>

definition save_text_message :: "env \<Rightarrow> string \<Rightarrow> string \<Rightarrow> string \<Rightarrow> string \<Rightarrow> server \<Rightarrow> server" where
  \<comment> \<open>\<open>FolderShareWindow.save_text_message(text, sender_type)\<close>, with the literal of
     \<open>time.time()\<close> and the result of \<open>get_local_ip()\<close>; a failure is printed and ignored\<close>
  \<open>save_text_message e text sender_type now local_ip st =
     (case open_w e (srv_fs st) TO_MOBILE_FILE of
        None \<Rightarrow> st
      | Some fs' \<Rightarrow>
          if \<not> valid_utf8 False text then
            st\<lparr>srv_fs := fs'(TO_MOBILE_FILE \<mapsto>
                 File (linesep e ([CHR ''{'', CHR 0x0A] @ ''  "text": '')))\<rparr>
          else
            st\<lparr>srv_fs := fs'(TO_MOBILE_FILE \<mapsto>
                 File (linesep e (rt_json_dumps (e_runtime e)
                   (JObj [(''text'', JStr text), (''sender_type'', JStr sender_type),
                          (''timestamp'', JFloat now), (''sender_ip'', JStr local_ip)]))))\<rparr>)\<close>

definition check_messages :: "env \<Rightarrow> server \<Rightarrow> json option \<times> server" where
  \<comment> \<open>\<open>FolderShareWindow.check_messages()\<close>: the message shown in the dialog, if any, and
     the state after the removal; every exception is swallowed\<close>
  "check_messages e st =
     (if exists_path (srv_fs st) TO_SERVER_FILE then
        (case read_json e (srv_fs st) TO_SERVER_FILE of
           None \<Rightarrow> (None, st)
         | Some message_data \<Rightarrow>
             (case message_data of
                JObj kvs \<Rightarrow>
                  (case remove_file e (srv_fs st) TO_SERVER_FILE of
                     None \<Rightarrow> (Some message_data, st)
                   | Some fs' \<Rightarrow> (Some message_data, st\<lparr>srv_fs := fs'\<rparr>))
              | _ \<Rightarrow> (None, st)))
      else (None, st))"

definition scheduled_calls :: "event list \<Rightarrow> int list" where
  \<comment> \<open>the delays of the calls of \<open>schedule_shutdown\<close> by the monitor, which announces each
     call with a \<open>Scheduling\<close> message\<close>
  "scheduled_calls tr =
     concat (map (\<lambda>ev. case ev of Printed (Scheduling seconds) \<Rightarrow> [seconds] | _ \<Rightarrow> []) tr)"

section \<open>Example environments and requests\<close>

abbreviation example_env ::
  "string \<Rightarrow> runtime \<Rightarrow> (string list \<Rightarrow> (int \<times> string) option) \<Rightarrow> env" where
  \<comment> \<open>a machine of the given platform where no file operation fails and \<open>os.makedirs\<close> is
     refused\<close>
  "example_env platform rt run \<equiv>
     \<lparr>e_cwd = ''/srv/app'', e_platform = platform, e_runtime = rt, e_run = run,
      e_listdir_fails = False, e_read_fails = (\<lambda>p. False), e_write_fails = (\<lambda>p. False),
      e_remove_fails = (\<lambda>p. False), e_makedirs = (\<lambda>fs p. None)\<rparr>"

abbreviation api_request :: "string \<Rightarrow> (string \<rightharpoonup> string) \<Rightarrow> body \<Rightarrow> request" where
  \<comment> \<open>a request from the peer 10.0.0.7 without a form\<close>
  "api_request path headers data \<equiv>
     \<lparr>rq_path = path, rq_headers = headers, rq_body = data, rq_form = None,
      rq_client_ip = ''10.0.0.7'', rq_time = ''2.0''\<rparr>"

section \<open>Properties of error responses\<close>

text \<open>
  Every call of \<open>send_error\<close> raises before a byte is sent, so every place of the
  handler that means to answer with an error status answers nothing.
\<close>

lemma send_error_raises: "send_error code = Some TypeError"
  by (simp add: send_error_def log_message_def)

lemma reject_escapes: "reject code = Escaped" "refuse code = Escaped" "on_exception = Escaped"
  by (simp_all add: reject_def refuse_def on_exception_def send_error_raises)

section \<open>Properties of the directory listing order\<close>



section \<open>Properties of the streaming transfer engine\<close>

















text \<open>
  C3. A range that cannot be satisfied should be answered with 416. \<open>range_request\<close> calls
  \<open>send_error(416, ...)\<close>, but \<open>send_error\<close> logs before it sends and the handler's own
  \<open>log_message\<close> raises \<open>TypeError\<close> on the status code: for an eight-byte file the
  requests \<open>bytes=8-\<close> (the start is the size of the file) and \<open>bytes=5-2\<close> get no
  response at all, whatever the peer does, and the exception leaves the request. The same
  happens for \<open>bytes=0-\<close> on an empty file, where the range \<open>0 \<le> 0 \<le> -1\<close> is not
  satisfiable either.
\<close>

theorem unsatisfiable_range_sends_no_response:
  "do_GET_file u [''Range'' \<mapsto> ''bytes=8-''] ctype mtime bufsize peer ''01234567''
     = ([], Some TypeError)
   \<and> do_GET_file u [''Range'' \<mapsto> ''bytes=5-2''] ctype mtime bufsize peer ''01234567''
     = ([], Some TypeError)
   \<and> do_GET_file u [''Range'' \<mapsto> ''bytes=0-''] ctype mtime bufsize peer []
     = ([], Some TypeError)
   \<and> send_error 416 = Some TypeError"
proof -
  have m: "match_range u ''bytes=8-'' = Some (''8'', [])"
    "match_range u ''bytes=5-2'' = Some (''5'', ''2'')"
    "match_range u ''bytes=0-'' = Some (''0'', [])"
    by code_simp+
  have i: "py_int u ''8'' = Some 8" "py_int u ''5'' = Some 5" "py_int u ''2'' = Some 2"
    "py_int u ''0'' = Some 0"
    by code_simp+
  show ?thesis
    by (simp add: do_GET_file_def send_head_file_def range_request_def
          range_not_satisfiable_def send_error_raises m i)
qed




section \<open>Properties of the namespace resolver\<close>

text \<open>
  C1. The resolver should return a path only when the share root is a prefix of it at a
  segment boundary. The code compares with \<open>startswith\<close>: with the root \<open>/data/movies\<close> the
  request \<open>/share1/../moviesX/f\<close> resolves to \<open>/data/moviesX/f\<close>, which begins with the
  string of the root and lies in a sibling directory, and the path is returned instead of
  \<open>None\<close>.
\<close>

theorem translate_path_sibling_prefix_accepted:
  "translate_path u ''/srv/app'' [''/data/movies''] ''/share1/../moviesX/f''
     = Inr (Some ''/data/moviesX/f'')
   \<and> startswith ''/data/moviesX/f'' ''/data/movies''
   \<and> \<not> within_root ''/data/movies'' ''/data/moviesX/f''"
  by code_simp

text \<open>
  C2. A \<open>..\<close> segment that leaves the share root should be rejected, raw or
  percent-encoded. With the root \<open>/srv/pub\<close> the requests \<open>/share1/../pub_private/secret.txt\<close>
  and \<open>/share1/%2e%2E/pub_private/secret.txt\<close> both leave the root and are both resolved
  to \<open>/srv/pub_private/secret.txt\<close>; the same escape to a directory whose name does not
  begin with \<open>pub\<close> is rejected.
\<close>

theorem translate_path_dotdot_escape_accepted:
  "translate_path u ''/srv/app'' [''/srv/pub''] ''/share1/../pub_private/secret.txt''
     = Inr (Some ''/srv/pub_private/secret.txt'')
   \<and> translate_path u ''/srv/app'' [''/srv/pub''] ''/share1/%2e%2E/pub_private/secret.txt''
     = Inr (Some ''/srv/pub_private/secret.txt'')
   \<and> \<not> within_root ''/srv/pub'' ''/srv/pub_private/secret.txt''
   \<and> translate_path u ''/srv/app'' [''/srv/pub''] ''/share1/../other/secret.txt'' = Inr None"
  by code_simp

section \<open>Properties of the listing renderer\<close>

lemma set_replace_char:
  "set (replace_char c r s) = (set s - {c}) \<union> (if c \<in> set s then set r else {})"
  by (induction s) (auto simp: replace_char_def)

lemma escape_no_markup:
  "CHR ''<'' \<notin> set (escape s) \<and> CHR ''>'' \<notin> set (escape s)
   \<and> CHR 0x22 \<notin> set (escape s) \<and> CHR 0x27 \<notin> set (escape s)"
  by (simp add: escape_def set_replace_char)

text \<open>
  C5. Every name and path taken from the file system should be HTML-escaped before it is
  embedded. \<open>list_directory\<close> escapes the entry names, but \<open>list_shared_dirs\<close> embeds the
  name and the path of a share as they are, and the heading of a directory listing embeds
  the decoded directory path as it is: a share directory named
  \<open><img src=x onerror=alert(1)>\<close> and a directory named \<open><b>x\<close> reach the pages as markup.
\<close>

theorem root_page_embeds_raw_directory_name:
  \<open>''<div class="dir-name"><img src=x onerror=alert(1)></div>''
     \<in> set (list_shared_dirs [''/srv/<img src=x onerror=alert(1)>''])
   \<and> escape ''<img src=x onerror=alert(1)>'' = ''&lt;img src=x onerror=alert(1)&gt;''
   \<and> list_directory u Map.empty (\<lambda>p. Some []) ''/share1/%3Cb%3Ex/'' ''/data/<b>x''
       = Inr (Some [''<div class="file-list">'',
               ''<h2>'' @ [CHR 0xE7, CHR 0x9B, CHR 0xAE, CHR 0xE5, CHR 0xBD, CHR 0x95,
                          CHR 0xEF, CHR 0xBC, CHR 0x9A] @ ''share1/<b>x/</h2>'',
               ''<ul>'',
               ''<li><a href="../">../</a></li>'',
               ''</ul>'',
               ''</div>''])\<close>
  by code_simp

section \<open>Properties of the mailbox\<close>

lemma mailbox_files_distinct: "TO_MOBILE_FILE \<noteq> TO_SERVER_FILE"
  by (simp add: TO_MOBILE_FILE_def TO_SERVER_FILE_def)

text \<open>
  C6, as stated, fails: with a message in each slot, \<open>POST /api/confirm_message\<close> answers
  200 and removes \<open>text_message.json\<close>, the slot that the window writes and the browser
  polls; \<open>mobile_text_message.json\<close>, the slot that \<open>/api/send_text\<close> writes, is still there.
\<close>

theorem confirm_message_leaves_to_server_slot:
  \<open>\<forall>rt.
     fst (do_POST (example_env ''linux'' rt (\<lambda>argv. None))
            (api_request ''/api/confirm_message'' Map.empty Not_json)
            \<lparr>srv_fs = [TO_SERVER_FILE \<mapsto> File ''{"text": "from the browser"}'',
                       TO_MOBILE_FILE \<mapsto> File ''{"text": "from the window"}''],
             srv_shared_dirs = [''/data/docs''], srv_shutdown_status = [], srv_trace = []\<rparr>)
       = Success 200 SUCCESS
     \<and> srv_fs (snd (do_POST (example_env ''linux'' rt (\<lambda>argv. None))
            (api_request ''/api/confirm_message'' Map.empty Not_json)
            \<lparr>srv_fs = [TO_SERVER_FILE \<mapsto> File ''{"text": "from the browser"}'',
                       TO_MOBILE_FILE \<mapsto> File ''{"text": "from the window"}''],
             srv_shared_dirs = [''/data/docs''], srv_shutdown_status = [], srv_trace = []\<rparr>))
         TO_SERVER_FILE
       = Some (File ''{"text": "from the browser"}'')
     \<and> srv_fs (snd (do_POST (example_env ''linux'' rt (\<lambda>argv. None))
            (api_request ''/api/confirm_message'' Map.empty Not_json)
            \<lparr>srv_fs = [TO_SERVER_FILE \<mapsto> File ''{"text": "from the browser"}'',
                       TO_MOBILE_FILE \<mapsto> File ''{"text": "from the window"}''],
             srv_shared_dirs = [''/data/docs''], srv_shutdown_status = [], srv_trace = []\<rparr>))
         TO_MOBILE_FILE
       = None\<close>
  by (simp add: do_POST_def api_confirm_message_def exists_path_def remove_file_def
        mailbox_files_distinct)

lemma send_text_writes_to_server_slot:
  "api_send_text e rq st = (Success c j, st') \<Longrightarrow>
     (\<exists>m. srv_fs st' = (srv_fs st)(TO_SERVER_FILE \<mapsto> File m))"
  by (auto simp: api_send_text_def open_w_def Let_def reject_escapes
           split: body.splits option.splits if_splits)

text \<open>
  C6, amended. \<open>POST /api/confirm_message\<close> clears the slot towards the browser
  (\<open>text_message.json\<close>) and answers 200, when the operating system lets the file be
  removed; every other path, the slot towards the server among them, is as before.
\<close>

theorem confirm_message_clears_to_mobile_slot:
  assumes "rq_path rq = ''/api/confirm_message''"
    and "\<not> e_remove_fails e TO_MOBILE_FILE"
    and "srv_fs st TO_MOBILE_FILE \<noteq> Some Dir"
  shows "fst (do_POST e rq st) = Success 200 SUCCESS
         \<and> srv_fs (snd (do_POST e rq st)) TO_MOBILE_FILE = None
         \<and> srv_fs (snd (do_POST e rq st)) TO_SERVER_FILE = srv_fs st TO_SERVER_FILE
         \<and> (\<forall>p. p \<noteq> TO_MOBILE_FILE \<longrightarrow> srv_fs (snd (do_POST e rq st)) p = srv_fs st p)"
proof (cases "srv_fs st TO_MOBILE_FILE")
  case None
  with assms(1) show ?thesis
    by (simp add: do_POST_def api_confirm_message_def exists_path_def)
next
  case (Some n)
  with assms(3) obtain c where "srv_fs st TO_MOBILE_FILE = Some (File c)"
    by (cases n) auto
  with assms(1,2) show ?thesis
    by (simp add: do_POST_def api_confirm_message_def exists_path_def remove_file_def
          mailbox_files_distinct [symmetric])
qed

text \<open>The amended C6 at a state whose only file is the slot towards the browser.\<close>

theorem confirm_message_clears_to_mobile_slot_witness:
  \<open>\<forall>rt.
     rq_path (api_request ''/api/confirm_message'' Map.empty Not_json) = ''/api/confirm_message''
     \<and> \<not> e_remove_fails (example_env ''linux'' rt (\<lambda>argv. None)) TO_MOBILE_FILE
     \<and> srv_fs \<lparr>srv_fs = [TO_MOBILE_FILE \<mapsto> File ''{"text": "hello"}''],
               srv_shared_dirs = [], srv_shutdown_status = [], srv_trace = []\<rparr> TO_MOBILE_FILE
         \<noteq> Some Dir
     \<and> TO_SERVER_FILE \<noteq> TO_MOBILE_FILE
     \<and> fst (do_POST (example_env ''linux'' rt (\<lambda>argv. None))
              (api_request ''/api/confirm_message'' Map.empty Not_json)
              \<lparr>srv_fs = [TO_MOBILE_FILE \<mapsto> File ''{"text": "hello"}''],
               srv_shared_dirs = [], srv_shutdown_status = [], srv_trace = []\<rparr>)
         = Success 200 SUCCESS
     \<and> srv_fs (snd (do_POST (example_env ''linux'' rt (\<lambda>argv. None))
              (api_request ''/api/confirm_message'' Map.empty Not_json)
              \<lparr>srv_fs = [TO_MOBILE_FILE \<mapsto> File ''{"text": "hello"}''],
               srv_shared_dirs = [], srv_shutdown_status = [], srv_trace = []\<rparr>))
         TO_MOBILE_FILE = None
     \<and> srv_fs (snd (do_POST (example_env ''linux'' rt (\<lambda>argv. None))
              (api_request ''/api/confirm_message'' Map.empty Not_json)
              \<lparr>srv_fs = [TO_MOBILE_FILE \<mapsto> File ''{"text": "hello"}''],
               srv_shared_dirs = [], srv_shutdown_status = [], srv_trace = []\<rparr>))
         TO_SERVER_FILE = None\<close>
proof
  fix rt
  from confirm_message_clears_to_mobile_slot
    [of "api_request ''/api/confirm_message'' Map.empty Not_json"
        "example_env ''linux'' rt (\<lambda>argv. None)"
        \<open>\<lparr>srv_fs = [TO_MOBILE_FILE \<mapsto> File ''{"text": "hello"}''],
           srv_shared_dirs = [], srv_shutdown_status = [], srv_trace = []\<rparr>\<close>]
    mailbox_files_distinct
  show \<open>rq_path (api_request ''/api/confirm_message'' Map.empty Not_json) = ''/api/confirm_message''
     \<and> \<not> e_remove_fails (example_env ''linux'' rt (\<lambda>argv. None)) TO_MOBILE_FILE
     \<and> srv_fs \<lparr>srv_fs = [TO_MOBILE_FILE \<mapsto> File ''{"text": "hello"}''],
               srv_shared_dirs = [], srv_shutdown_status = [], srv_trace = []\<rparr> TO_MOBILE_FILE
         \<noteq> Some Dir
     \<and> TO_SERVER_FILE \<noteq> TO_MOBILE_FILE
     \<and> fst (do_POST (example_env ''linux'' rt (\<lambda>argv. None))
              (api_request ''/api/confirm_message'' Map.empty Not_json)
              \<lparr>srv_fs = [TO_MOBILE_FILE \<mapsto> File ''{"text": "hello"}''],
               srv_shared_dirs = [], srv_shutdown_status = [], srv_trace = []\<rparr>)
         = Success 200 SUCCESS
     \<and> srv_fs (snd (do_POST (example_env ''linux'' rt (\<lambda>argv. None))
              (api_request ''/api/confirm_message'' Map.empty Not_json)
              \<lparr>srv_fs = [TO_MOBILE_FILE \<mapsto> File ''{"text": "hello"}''],
               srv_shared_dirs = [], srv_shutdown_status = [], srv_trace = []\<rparr>))
         TO_MOBILE_FILE = None
     \<and> srv_fs (snd (do_POST (example_env ''linux'' rt (\<lambda>argv. None))
              (api_request ''/api/confirm_message'' Map.empty Not_json)
              \<lparr>srv_fs = [TO_MOBILE_FILE \<mapsto> File ''{"text": "hello"}''],
               srv_shared_dirs = [], srv_shutdown_status = [], srv_trace = []\<rparr>))
         TO_SERVER_FILE = None\<close>
    by auto
qed

section \<open>Properties of file creation\<close>

lemma create_file_reply:
  "fst (api_create_file e rq st) = Success 201 SUCCESS \<or> fst (api_create_file e rq st) = Escaped"
  by (auto simp: api_create_file_def reject_escapes
           split: body.splits option.splits prod.splits json.splits sum.splits if_splits)

text \<open>
  C7. \<open>POST /api/create_file\<close> should answer 400 to a name that fails validation and 409
  when the target exists. The handler calls \<open>send_error(400, ...)\<close> and
  \<open>send_error(409, ...)\<close>, but each call raises \<open>TypeError\<close> in \<open>log_message\<close> before anything
  is sent; the \<open>except\<close> clause of the endpoint catches it and calls \<open>send_error(500, ...)\<close>,
  which raises again and leaves \<open>do_POST\<close>. So the requests of the specification's
  scenario, for \<open>notes.bin\<close> and for \<open>../x.txt\<close>, get no response, and neither does the
  request for a file that exists or a body that is not JSON; the state is left as it was.
  Whatever the request, the endpoint answers 201 or not at all.
\<close>

theorem create_file_errors_send_no_response:
  "do_POST e
      (api_request ''/api/create_file'' headers
         (Parsed (JObj [(''filename'', JStr ''notes.bin''), (''content'', JStr ''x'')]))) st
     = (Escaped, st)
   \<and> do_POST e
        (api_request ''/api/create_file'' headers (Parsed (JObj [(''filename'', JStr ''../x.txt'')])))
        st
     = (Escaped, st)
   \<and> do_POST e
        (api_request ''/api/create_file'' Map.empty
           (Parsed (JObj [(''filename'', JStr ''notes.txt''), (''content'', JStr ''new'')])))
        \<lparr>srv_fs = [''/data/docs'' \<mapsto> Dir, ''/data/docs/notes.txt'' \<mapsto> File ''old''],
         srv_shared_dirs = [''/data/docs''], srv_shutdown_status = status, srv_trace = tr\<rparr>
     = (Escaped,
        \<lparr>srv_fs = [''/data/docs'' \<mapsto> Dir, ''/data/docs/notes.txt'' \<mapsto> File ''old''],
         srv_shared_dirs = [''/data/docs''], srv_shutdown_status = status, srv_trace = tr\<rparr>)
   \<and> do_POST e (api_request ''/api/create_file'' headers Not_json) st = (Escaped, st)
   \<and> fst (do_POST e (rq\<lparr>rq_path := ''/api/create_file''\<rparr>) st) \<in> {Success 201 SUCCESS, Escaped}
   \<and> send_error 400 = Some TypeError \<and> send_error 409 = Some TypeError"
proof -
  have s: "strip (e_runtime e) ''notes.bin'' = ''notes.bin''"
    "strip (e_runtime e) ''../x.txt'' = ''../x.txt''"
    "strip (e_runtime e) ''notes.txt'' = ''notes.txt''"
    by code_simp+
  have n: "\<not> endswith ''notes.bin'' ''.txt''" "endswith ''../x.txt'' ''.txt''"
    "unsafe_name ''../x.txt''" "endswith ''notes.txt'' ''.txt''" "\<not> unsafe_name ''notes.txt''"
    by code_simp+
  have r: "match_referer (e_runtime e) [] = None" by code_simp
  have j: "join ''/data/docs'' ''notes.txt'' = ''/data/docs/notes.txt''" by code_simp
  have 1: "do_POST e
      (api_request ''/api/create_file'' headers
         (Parsed (JObj [(''filename'', JStr ''notes.bin''), (''content'', JStr ''x'')]))) st
     = (Escaped, st)"
    by (simp add: do_POST_def api_create_file_def get_stripped_def get_value_def s n
          reject_escapes)
  have 2: "do_POST e
        (api_request ''/api/create_file'' headers (Parsed (JObj [(''filename'', JStr ''../x.txt'')])))
        st
     = (Escaped, st)"
    by (simp add: do_POST_def api_create_file_def get_stripped_def get_value_def s n
          reject_escapes)
  have 3: "do_POST e
        (api_request ''/api/create_file'' Map.empty
           (Parsed (JObj [(''filename'', JStr ''notes.txt''), (''content'', JStr ''new'')])))
        \<lparr>srv_fs = [''/data/docs'' \<mapsto> Dir, ''/data/docs/notes.txt'' \<mapsto> File ''old''],
         srv_shared_dirs = [''/data/docs''], srv_shutdown_status = status, srv_trace = tr\<rparr>
     = (Escaped,
        \<lparr>srv_fs = [''/data/docs'' \<mapsto> Dir, ''/data/docs/notes.txt'' \<mapsto> File ''old''],
         srv_shared_dirs = [''/data/docs''], srv_shutdown_status = status, srv_trace = tr\<rparr>)"
    by (simp add: do_POST_def api_create_file_def get_stripped_def get_value_def s n r j
          target_path_def exists_path_def reject_escapes)
  have 4: "do_POST e (api_request ''/api/create_file'' headers Not_json) st = (Escaped, st)"
    by (simp add: do_POST_def api_create_file_def reject_escapes)
  have 5: "fst (do_POST e (rq\<lparr>rq_path := ''/api/create_file''\<rparr>) st) \<in> {Success 201 SUCCESS, Escaped}"
    using create_file_reply [of e "rq\<lparr>rq_path := ''/api/create_file''\<rparr>" st]
    by (auto simp: do_POST_def)
  from 1 2 3 4 5 show ?thesis by (simp add: send_error_raises)
qed

lemma create_file_creates:
  assumes "rq_path rq = ''/api/create_file''"
    and "rq_body rq = Parsed data"
    and "get_stripped (e_runtime e) data ''filename'' = Some filename"
    and "endswith filename ''.txt''" "\<not> unsafe_name filename"
    and "target_path e rq st filename = Inr (Some filepath)"
    and "\<not> exists_path (srv_fs st) filepath"
    and "\<not> e_write_fails e filepath"
    and "get_value data ''content'' (JStr []) = Some (JStr s)"
    and "valid_utf8 False s"
  shows "do_POST e rq st
           = (Success 201 SUCCESS, st\<lparr>srv_fs := (srv_fs st)(filepath \<mapsto> File (linesep e s))\<rparr>)"
proof -
  have nd: "srv_fs st filepath \<noteq> Some Dir" using assms(7) by (simp add: exists_path_def)
  show ?thesis
    using assms nd by (simp add: do_POST_def api_create_file_def open_w_def)
qed

section \<open>Properties of the control channel\<close>

lemma scheduled_calls_append [simp]:
  "scheduled_calls (xs @ ys) = scheduled_calls xs @ scheduled_calls ys"
  by (simp add: scheduled_calls_def)

lemma scheduled_calls_simps [simp]:
  "scheduled_calls [] = []"
  "scheduled_calls (Printed (Scheduling s) # tr) = s # scheduled_calls tr"
  "(\<And>s. m \<noteq> Scheduling s) \<Longrightarrow> scheduled_calls (Printed m # tr) = scheduled_calls tr"
  "scheduled_calls (Ran argv # tr) = scheduled_calls tr"
  by (auto simp: scheduled_calls_def split: message.splits)

lemma schedule_shutdown_no_calls: "scheduled_calls (fst (schedule_shutdown e seconds)) = []"
  by (auto simp: schedule_shutdown_def split: option.splits)

lemma cancel_shutdown_no_calls: "scheduled_calls (fst (cancel_shutdown e fs)) = []"
  by (auto simp: cancel_shutdown_def split: option.splits)

lemma sentinels_distinct: "SHUTDOWN_FILE \<noteq> CANCEL_FILE" "\<not> is_legacy_hint e SHUTDOWN_FILE"
  by code_simp+

lemma cancel_shutdown_keeps_sentinel:
  "fst (snd (cancel_shutdown e fs)) SHUTDOWN_FILE = fs SHUTDOWN_FILE"
  by (auto simp: cancel_shutdown_def remove_legacy_hints_def sentinels_distinct
           split: option.splits)

lemma monitor_cancel_keeps_sentinel:
  "srv_fs (monitor_cancel e st) SHUTDOWN_FILE = srv_fs st SHUTDOWN_FILE"
proof -
  obtain evs fs1 ok where c: "cancel_shutdown e (srv_fs st) = (evs, fs1, ok)"
    by (cases "cancel_shutdown e (srv_fs st)") auto
  with cancel_shutdown_keeps_sentinel [of e "srv_fs st"]
  have k: "fs1 SHUTDOWN_FILE = srv_fs st SHUTDOWN_FILE" by simp
  show ?thesis
    using c k sentinels_distinct(1)
    by (auto simp: monitor_cancel_def remove_file_def Let_def split: option.splits node.splits)
qed

lemma monitor_cancel_no_calls:
  "scheduled_calls (srv_trace (monitor_cancel e st)) = scheduled_calls (srv_trace st)"
proof -
  obtain evs fs1 ok where c: "cancel_shutdown e (srv_fs st) = (evs, fs1, ok)"
    by (cases "cancel_shutdown e (srv_fs st)") auto
  with cancel_shutdown_no_calls [of e "srv_fs st"] have "scheduled_calls evs = []" by simp
  with c show ?thesis
    by (auto simp: monitor_cancel_def Let_def split: option.splits)
qed

lemma is_positive_integer_cases:
  "is_positive_integer u s = Inr True \<longleftrightarrow> isdigit u s \<and> (\<exists>n. py_int u s = Some n \<and> 0 < n)"
  "is_positive_integer u s = Inr False
     \<longleftrightarrow> \<not> isdigit u s \<or> (\<exists>n. py_int u s = Some n \<and> n \<le> 0)"
  "is_positive_integer u s = Inl err \<longleftrightarrow> isdigit u s \<and> py_int u s = None \<and> err = ValueError"
  by (auto simp: is_positive_integer_def split: option.splits)

lemma monitor_cycle_on_sentinel:
  assumes listing: "\<not> e_listdir_fails e"
    and sentinel: "srv_fs st SHUTDOWN_FILE = Some (File bytes)"
  defines "content \<equiv> strip (e_runtime e) (universal_newlines bytes)"
    and "st1 \<equiv> (if srv_fs st CANCEL_FILE \<noteq> None then monitor_cancel e st else st)"
  shows "e_read_fails e SHUTDOWN_FILE \<or> \<not> valid_utf8 False bytes \<Longrightarrow>
           monitor_cycle e st = st1\<lparr>srv_trace := srv_trace st1 @ [Printed Command_error]\<rparr>"
    and "\<not> e_read_fails e SHUTDOWN_FILE \<Longrightarrow> valid_utf8 False bytes \<Longrightarrow>
         is_positive_integer (e_runtime e) content = Inr False \<Longrightarrow>
           monitor_cycle e st =
             st1\<lparr>srv_trace := srv_trace st1
                   @ [Printed (Read_command content), Printed Not_positive_integer]\<rparr>"
    and "\<not> e_read_fails e SHUTDOWN_FILE \<Longrightarrow> valid_utf8 False bytes \<Longrightarrow>
         is_positive_integer (e_runtime e) content = Inl err \<Longrightarrow>
           monitor_cycle e st =
             st1\<lparr>srv_trace := srv_trace st1
                   @ [Printed (Read_command content), Printed Command_error]\<rparr>"
    and "\<not> e_read_fails e SHUTDOWN_FILE \<Longrightarrow> valid_utf8 False bytes \<Longrightarrow>
         is_positive_integer (e_runtime e) content = Inr True \<Longrightarrow>
         py_int (e_runtime e) content = Some seconds \<Longrightarrow>
           srv_trace (monitor_cycle e st) =
             srv_trace st1
               @ [Printed (Read_command content), Printed (Scheduling seconds)]
               @ fst (schedule_shutdown e seconds)
               @ [Printed (if snd (schedule_shutdown e seconds)
                           then (if e_remove_fails e SHUTDOWN_FILE then Command_error
                                 else Removed SHUTDOWN_FILE)
                           else Schedule_failed)]
           \<and> srv_fs (monitor_cycle e st) SHUTDOWN_FILE =
               (if snd (schedule_shutdown e seconds) \<and> \<not> e_remove_fails e SHUTDOWN_FILE
                then None else Some (File bytes))"
    and "srv_fs st1 SHUTDOWN_FILE = Some (File bytes)"
    and "scheduled_calls (srv_trace st1) = scheduled_calls (srv_trace st)"
proof -
  show s1: "srv_fs st1 SHUTDOWN_FILE = Some (File bytes)"
    using sentinel by (simp add: st1_def monitor_cancel_keeps_sentinel)
  show "scheduled_calls (srv_trace st1) = scheduled_calls (srv_trace st)"
    by (simp add: st1_def monitor_cancel_no_calls)
  have cyc: "monitor_cycle e st = monitor_schedule e st1"
    using listing sentinel by (simp add: monitor_cycle_def st1_def Let_def)
  show "e_read_fails e SHUTDOWN_FILE \<or> \<not> valid_utf8 False bytes \<Longrightarrow>
           monitor_cycle e st = st1\<lparr>srv_trace := srv_trace st1 @ [Printed Command_error]\<rparr>"
    unfolding cyc using s1 by (auto simp: monitor_schedule_def read_text_def)
  have rd: "read_text e (srv_fs st1) SHUTDOWN_FILE = Some (universal_newlines bytes)"
    if "\<not> e_read_fails e SHUTDOWN_FILE" "valid_utf8 False bytes"
    using s1 that by (simp add: read_text_def)
  show "\<not> e_read_fails e SHUTDOWN_FILE \<Longrightarrow> valid_utf8 False bytes \<Longrightarrow>
         is_positive_integer (e_runtime e) content = Inr False \<Longrightarrow>
           monitor_cycle e st =
             st1\<lparr>srv_trace := srv_trace st1
                   @ [Printed (Read_command content), Printed Not_positive_integer]\<rparr>"
    unfolding cyc by (simp add: monitor_schedule_def rd content_def [symmetric] Let_def)
  show "\<not> e_read_fails e SHUTDOWN_FILE \<Longrightarrow> valid_utf8 False bytes \<Longrightarrow>
         is_positive_integer (e_runtime e) content = Inl err \<Longrightarrow>
           monitor_cycle e st =
             st1\<lparr>srv_trace := srv_trace st1
                   @ [Printed (Read_command content), Printed Command_error]\<rparr>"
    unfolding cyc by (simp add: monitor_schedule_def rd content_def [symmetric] Let_def)
  obtain evs ok where ss: "schedule_shutdown e seconds = (evs, ok)"
    by (cases "schedule_shutdown e seconds") auto
  show "\<not> e_read_fails e SHUTDOWN_FILE \<Longrightarrow> valid_utf8 False bytes \<Longrightarrow>
         is_positive_integer (e_runtime e) content = Inr True \<Longrightarrow>
         py_int (e_runtime e) content = Some seconds \<Longrightarrow>
           srv_trace (monitor_cycle e st) =
             srv_trace st1
               @ [Printed (Read_command content), Printed (Scheduling seconds)]
               @ fst (schedule_shutdown e seconds)
               @ [Printed (if snd (schedule_shutdown e seconds)
                           then (if e_remove_fails e SHUTDOWN_FILE then Command_error
                                 else Removed SHUTDOWN_FILE)
                           else Schedule_failed)]
           \<and> srv_fs (monitor_cycle e st) SHUTDOWN_FILE =
               (if snd (schedule_shutdown e seconds) \<and> \<not> e_remove_fails e SHUTDOWN_FILE
                then None else Some (File bytes))"
    unfolding cyc using ss s1
    by (simp add: monitor_schedule_def rd content_def [symmetric] Let_def remove_file_def)
qed

text \<open>
  C8. In a cycle of the monitor that lists the working directory and finds the schedule
  sentinel, the file is read as UTF-8 text and stripped, and the content is tested by
  \<open>is_positive_integer\<close>: a non-empty run of digit characters that \<open>int\<close> reads as a
  positive number. A file that cannot be read, content that is not such a run or is not
  positive, and content on which \<open>int\<close> raises (a digit character without a decimal value,
  or more digits than \<open>int\<close> accepts) are reported and ignored: nothing is scheduled and
  the sentinel stays. For a positive integer \<open>schedule_shutdown\<close> is called with that number
  of seconds; the sentinel is removed only if the call returned true (and then it is,
  unless \<open>os.remove\<close> fails), and it stays when the call returned false.
\<close>

theorem monitor_cycle_schedule_sentinel:
  assumes listing: "\<not> e_listdir_fails e"
    and sentinel: "srv_fs st SHUTDOWN_FILE = Some (File bytes)"
  defines "u \<equiv> e_runtime e"
    and "readable \<equiv> \<not> e_read_fails e SHUTDOWN_FILE \<and> valid_utf8 False bytes"
    and "content \<equiv> strip (e_runtime e) (universal_newlines bytes)"
    and "st1 \<equiv> (if srv_fs st CANCEL_FILE \<noteq> None then monitor_cancel e st else st)"
    and "after \<equiv> monitor_cycle e st"
  shows
    "(is_positive_integer u content = Inr True
        \<longleftrightarrow> isdigit u content \<and> (\<exists>n. py_int u content = Some n \<and> 0 < n))
     \<and> (\<not> readable \<longrightarrow>
           after = st1\<lparr>srv_trace := srv_trace st1 @ [Printed Command_error]\<rparr>)
     \<and> (readable \<and> is_positive_integer u content = Inr False \<longrightarrow>
           after = st1\<lparr>srv_trace := srv_trace st1
                     @ [Printed (Read_command content), Printed Not_positive_integer]\<rparr>)
     \<and> (readable \<and> (\<exists>err. is_positive_integer u content = Inl err) \<longrightarrow>
           after = st1\<lparr>srv_trace := srv_trace st1
                     @ [Printed (Read_command content), Printed Command_error]\<rparr>)
     \<and> (\<not> (readable \<and> is_positive_integer u content = Inr True) \<longrightarrow>
           scheduled_calls (srv_trace after) = scheduled_calls (srv_trace st)
           \<and> srv_fs after SHUTDOWN_FILE = Some (File bytes))
     \<and> (readable \<and> is_positive_integer u content = Inr True \<longrightarrow>
           (\<exists>seconds.
              py_int u content = Some seconds \<and> 0 < seconds
              \<and> srv_trace after =
                  srv_trace st1
                    @ [Printed (Read_command content), Printed (Scheduling seconds)]
                    @ fst (schedule_shutdown e seconds)
                    @ [Printed (if snd (schedule_shutdown e seconds)
                                then (if e_remove_fails e SHUTDOWN_FILE then Command_error
                                      else Removed SHUTDOWN_FILE)
                                else Schedule_failed)]
              \<and> scheduled_calls (srv_trace after) = scheduled_calls (srv_trace st) @ [seconds]
              \<and> (srv_fs after SHUTDOWN_FILE = None \<longrightarrow> snd (schedule_shutdown e seconds))
              \<and> (\<not> snd (schedule_shutdown e seconds) \<longrightarrow>
                    srv_fs after SHUTDOWN_FILE = Some (File bytes))
              \<and> (snd (schedule_shutdown e seconds) \<and> \<not> e_remove_fails e SHUTDOWN_FILE \<longrightarrow>
                    srv_fs after SHUTDOWN_FILE = None)))"
proof -
  note facts = monitor_cycle_on_sentinel [OF listing sentinel]
  have f4: "srv_fs st1 SHUTDOWN_FILE = Some (File bytes)"
    unfolding st1_def by (rule facts(5))
  have f5: "scheduled_calls (srv_trace st1) = scheduled_calls (srv_trace st)"
    unfolding st1_def by (rule facts(6))
  have a: "is_positive_integer u content = Inr True
        \<longleftrightarrow> isdigit u content \<and> (\<exists>n. py_int u content = Some n \<and> 0 < n)"
    by (rule is_positive_integer_cases(1))
  have b: "after = st1\<lparr>srv_trace := srv_trace st1 @ [Printed Command_error]\<rparr>"
    if "\<not> readable"
    unfolding after_def st1_def
    by (rule facts(1)) (use that in \<open>simp add: readable_def\<close>)
  have c: "after = st1\<lparr>srv_trace := srv_trace st1
                     @ [Printed (Read_command content), Printed Not_positive_integer]\<rparr>"
    if "readable" "is_positive_integer u content = Inr False"
    unfolding after_def st1_def content_def
    by (rule facts(2)) (use that in \<open>simp_all add: readable_def content_def u_def\<close>)
  have d: "after = st1\<lparr>srv_trace := srv_trace st1
                     @ [Printed (Read_command content), Printed Command_error]\<rparr>"
    if "readable" "is_positive_integer u content = Inl err" for err
    unfolding after_def st1_def content_def
    by (rule facts(3) [where err = err])
       (use that in \<open>simp_all add: readable_def content_def u_def\<close>)
  have x: "scheduled_calls (srv_trace after) = scheduled_calls (srv_trace st)
           \<and> srv_fs after SHUTDOWN_FILE = Some (File bytes)"
    if n: "\<not> (readable \<and> is_positive_integer u content = Inr True)"
  proof (cases readable)
    case False
    note eq = b [OF False]
    have "scheduled_calls (srv_trace after) = scheduled_calls (srv_trace st)"
      by (subst eq) (simp add: f5)
    moreover have "srv_fs after SHUTDOWN_FILE = Some (File bytes)"
      by (subst eq) (simp add: f4)
    ultimately show ?thesis by blast
  next
    case True
    with n have ne: "is_positive_integer u content \<noteq> Inr True" by simp
    show ?thesis
    proof (cases "is_positive_integer u content")
      case (Inl err)
      note eq = d [OF True Inl]
      have "scheduled_calls (srv_trace after) = scheduled_calls (srv_trace st)"
        by (subst eq) (simp add: f5)
      moreover have "srv_fs after SHUTDOWN_FILE = Some (File bytes)"
        by (subst eq) (simp add: f4)
      ultimately show ?thesis by blast
    next
      case (Inr v)
      with ne have "is_positive_integer u content = Inr False" by simp
      note eq = c [OF True this]
      have "scheduled_calls (srv_trace after) = scheduled_calls (srv_trace st)"
        by (subst eq) (simp add: f5)
      moreover have "srv_fs after SHUTDOWN_FILE = Some (File bytes)"
        by (subst eq) (simp add: f4)
      ultimately show ?thesis by blast
    qed
  qed
  have y: "\<exists>seconds.
              py_int u content = Some seconds \<and> 0 < seconds
              \<and> srv_trace after =
                  srv_trace st1
                    @ [Printed (Read_command content), Printed (Scheduling seconds)]
                    @ fst (schedule_shutdown e seconds)
                    @ [Printed (if snd (schedule_shutdown e seconds)
                                then (if e_remove_fails e SHUTDOWN_FILE then Command_error
                                      else Removed SHUTDOWN_FILE)
                                else Schedule_failed)]
              \<and> scheduled_calls (srv_trace after) = scheduled_calls (srv_trace st) @ [seconds]
              \<and> (srv_fs after SHUTDOWN_FILE = None \<longrightarrow> snd (schedule_shutdown e seconds))
              \<and> (\<not> snd (schedule_shutdown e seconds) \<longrightarrow>
                    srv_fs after SHUTDOWN_FILE = Some (File bytes))
              \<and> (snd (schedule_shutdown e seconds) \<and> \<not> e_remove_fails e SHUTDOWN_FILE \<longrightarrow>
                    srv_fs after SHUTDOWN_FILE = None)"
    if r: "readable" and p: "is_positive_integer u content = Inr True"
  proof -
    from p a obtain seconds where s: "py_int u content = Some seconds" and pos: "0 < seconds"
      by auto
    have both: "srv_trace after =
             srv_trace st1
               @ [Printed (Read_command content), Printed (Scheduling seconds)]
               @ fst (schedule_shutdown e seconds)
               @ [Printed (if snd (schedule_shutdown e seconds)
                           then (if e_remove_fails e SHUTDOWN_FILE then Command_error
                                 else Removed SHUTDOWN_FILE)
                           else Schedule_failed)]
           \<and> srv_fs after SHUTDOWN_FILE =
               (if snd (schedule_shutdown e seconds) \<and> \<not> e_remove_fails e SHUTDOWN_FILE
                then None else Some (File bytes))"
      unfolding after_def st1_def content_def
      by (rule facts(4)) (use r p s in \<open>simp_all add: readable_def content_def u_def\<close>)
    then have tr: "srv_trace after =
             srv_trace st1
               @ [Printed (Read_command content), Printed (Scheduling seconds)]
               @ fst (schedule_shutdown e seconds)
               @ [Printed (if snd (schedule_shutdown e seconds)
                           then (if e_remove_fails e SHUTDOWN_FILE then Command_error
                                 else Removed SHUTDOWN_FILE)
                           else Schedule_failed)]"
      and fs: "srv_fs after SHUTDOWN_FILE =
               (if snd (schedule_shutdown e seconds) \<and> \<not> e_remove_fails e SHUTDOWN_FILE
                then None else Some (File bytes))"
      by blast+
    have calls: "scheduled_calls (srv_trace after) = scheduled_calls (srv_trace st) @ [seconds]"
      by (subst tr) (simp add: f5 schedule_shutdown_no_calls)
    have rm: "(srv_fs after SHUTDOWN_FILE = None \<longrightarrow> snd (schedule_shutdown e seconds))
           \<and> (\<not> snd (schedule_shutdown e seconds) \<longrightarrow>
                 srv_fs after SHUTDOWN_FILE = Some (File bytes))
           \<and> (snd (schedule_shutdown e seconds) \<and> \<not> e_remove_fails e SHUTDOWN_FILE \<longrightarrow>
                 srv_fs after SHUTDOWN_FILE = None)"
      by (subst (1 2 3) fs) simp
    show ?thesis
      by (rule exI [of _ seconds]) (use s pos tr calls rm in \<open>intro conjI; assumption?; blast\<close>)
  qed
  from a b c d x y show ?thesis by blast
qed

text \<open>
  C8 at a sentinel holding \<open> 30 \<close> on Windows, where the shutdown command succeeds.
\<close>

theorem monitor_cycle_schedule_sentinel_witness:
  "\<forall>rt.
     \<not> e_listdir_fails
         (example_env ''win32'' rt
            (\<lambda>argv. Some (if argv = [''shutdown'', ''/s'', ''/t'', ''30''] then 0 else 1, [])))
     \<and> srv_fs \<lparr>srv_fs = [SHUTDOWN_FILE \<mapsto> File '' 30 ''], srv_shared_dirs = [],
               srv_shutdown_status = [], srv_trace = []\<rparr> SHUTDOWN_FILE
         = Some (File '' 30 '')
     \<and> is_positive_integer rt (strip rt (universal_newlines '' 30 '')) = Inr True
     \<and> srv_trace (monitor_cycle
         (example_env ''win32'' rt
            (\<lambda>argv. Some (if argv = [''shutdown'', ''/s'', ''/t'', ''30''] then 0 else 1, [])))
         \<lparr>srv_fs = [SHUTDOWN_FILE \<mapsto> File '' 30 ''], srv_shared_dirs = [],
          srv_shutdown_status = [], srv_trace = []\<rparr>)
         = [Printed (Read_command ''30''), Printed (Scheduling 30),
            Ran [''shutdown'', ''/s'', ''/t'', ''30''], Printed (Windows_scheduled 30),
            Printed (Removed SHUTDOWN_FILE)]
     \<and> srv_fs (monitor_cycle
         (example_env ''win32'' rt
            (\<lambda>argv. Some (if argv = [''shutdown'', ''/s'', ''/t'', ''30''] then 0 else 1, [])))
         \<lparr>srv_fs = [SHUTDOWN_FILE \<mapsto> File '' 30 ''], srv_shared_dirs = [],
          srv_shutdown_status = [], srv_trace = []\<rparr>) SHUTDOWN_FILE = None"
proof
  fix rt
  let ?e = "example_env ''win32'' rt
            (\<lambda>argv. Some (if argv = [''shutdown'', ''/s'', ''/t'', ''30''] then 0 else 1, []))"
  let ?st = "\<lparr>srv_fs = [SHUTDOWN_FILE \<mapsto> File '' 30 ''], srv_shared_dirs = [],
        srv_shutdown_status = [], srv_trace = []\<rparr>"
  have v: "valid_utf8 False '' 30 ''" by code_simp
  have n: "universal_newlines '' 30 '' = '' 30 ''" by code_simp
  have s: "strip rt '' 30 '' = ''30''" by code_simp
  have p: "is_positive_integer rt ''30'' = Inr True" by code_simp
  have i: "py_int rt ''30'' = Some 30" by code_simp
  have t: "str_int 30 = ''30''" by code_simp
  have ss: "schedule_shutdown ?e 30 =
              ([Ran [''shutdown'', ''/s'', ''/t'', ''30''], Printed (Windows_scheduled 30)], True)"
    by (simp add: schedule_shutdown_def t)
  have nc: "srv_fs ?st CANCEL_FILE = None"
    using sentinels_distinct(1) by simp
  from monitor_cycle_schedule_sentinel [of ?e ?st "'' 30 ''"]
  show "\<not> e_listdir_fails ?e
     \<and> srv_fs ?st SHUTDOWN_FILE = Some (File '' 30 '')
     \<and> is_positive_integer rt (strip rt (universal_newlines '' 30 '')) = Inr True
     \<and> srv_trace (monitor_cycle ?e ?st)
         = [Printed (Read_command ''30''), Printed (Scheduling 30),
            Ran [''shutdown'', ''/s'', ''/t'', ''30''], Printed (Windows_scheduled 30),
            Printed (Removed SHUTDOWN_FILE)]
     \<and> srv_fs (monitor_cycle ?e ?st) SHUTDOWN_FILE = None"
    using nc by (simp add: v n s p i ss del: valid_utf8.simps universal_newlines.simps)
qed

lemma shutdown_monitor_ignores_invalid_sentinel:
  assumes "srv_fs st SHUTDOWN_FILE = Some (File bytes)"
    and "is_positive_integer (e_runtime e) (strip (e_runtime e) (universal_newlines bytes))
           \<noteq> Inr True"
  shows "srv_fs (shutdown_monitor e n st) SHUTDOWN_FILE = Some (File bytes)
         \<and> scheduled_calls (srv_trace (shutdown_monitor e n st)) = scheduled_calls (srv_trace st)"
  using assms(1)
proof (induction n arbitrary: st)
  case 0
  then show ?case by simp
next
  case (Suc n)
  have "srv_fs (monitor_cycle e st) SHUTDOWN_FILE = Some (File bytes)
        \<and> scheduled_calls (srv_trace (monitor_cycle e st)) = scheduled_calls (srv_trace st)"
  proof (cases "e_listdir_fails e")
    case True
    with Suc.prems show ?thesis by (simp add: monitor_cycle_def)
  next
    case False
    note facts = monitor_cycle_on_sentinel [OF False Suc.prems]
    show ?thesis
    proof (cases "e_read_fails e SHUTDOWN_FILE \<or> \<not> valid_utf8 False bytes")
      case True
      from facts(1) [OF True] facts(5,6) show ?thesis by simp
    next
      case ok: False
      show ?thesis
      proof (cases "is_positive_integer (e_runtime e)
                      (strip (e_runtime e) (universal_newlines bytes))")
        case (Inl err)
        from facts(3) [OF _ _ Inl] ok facts(5,6) show ?thesis by simp
      next
        case (Inr v)
        with assms(2) have "is_positive_integer (e_runtime e)
                      (strip (e_runtime e) (universal_newlines bytes)) = Inr False" by simp
        from facts(2) [OF _ _ this] ok facts(5,6) show ?thesis by simp
      qed
    qed
  qed
  with Suc.IH [of "monitor_cycle e st"] show ?case by simp
qed

text \<open>
  C10. \<open>POST /api/shutdown\<close> with the body \<open>{"seconds": true}\<close> passes the handler's check,
  because a boolean is an \<open>int\<close> and \<open>True\<close> is not \<open>\<le> 0\<close>: the answer is 200, the status
  text contains \<open>True\<close>, and the sentinel holds \<open>True\<close>. That is not a positive integer for
  the monitor, so however many cycles run, in whatever environment, the sentinel stays
  and \<open>schedule_shutdown\<close> is never called.
\<close>

theorem shutdown_seconds_true_accepted_never_executed:
  assumes "rq_path rq = ''/api/shutdown''"
    and "rq_body rq = Parsed (JObj [(''seconds'', JBool True)])"
    and "\<not> e_write_fails e SHUTDOWN_FILE"
    and "srv_fs st SHUTDOWN_FILE \<noteq> Some Dir"
  defines "st' \<equiv> snd (do_POST e rq st)"
  shows "valid_seconds (JBool True)
         \<and> fst (do_POST e rq st) = Success 200 SUCCESS
         \<and> srv_shutdown_status st' = STATUS_PREFIX @ ''True'' @ STATUS_SUFFIX
         \<and> contains (srv_shutdown_status st') ''True''
         \<and> srv_fs st' SHUTDOWN_FILE = Some (File ''True'')
         \<and> (\<forall>u. is_positive_integer u (strip u (universal_newlines ''True'')) = Inr False)
         \<and> (\<forall>e' n. srv_fs (shutdown_monitor e' n st') SHUTDOWN_FILE = Some (File ''True'')
                  \<and> scheduled_calls (srv_trace (shutdown_monitor e' n st'))
                    = scheduled_calls (srv_trace st))"
proof -
  have v: "valid_seconds (JBool True)" by (simp add: valid_seconds_def)
  have r: "do_POST e rq st =
             (Success 200 SUCCESS,
              st\<lparr>srv_fs := (srv_fs st)(SHUTDOWN_FILE \<mapsto> File ''True''),
                 srv_shutdown_status := STATUS_PREFIX @ ''True'' @ STATUS_SUFFIX\<rparr>)"
    using assms(1-4)
    by (simp add: do_POST_def api_shutdown_def get_value_def v open_w_def str_seconds_def)
  have c: "contains (STATUS_PREFIX @ ''True'' @ STATUS_SUFFIX) ''True''" by code_simp
  have np: "is_positive_integer u (strip u (universal_newlines ''True'')) = Inr False" for u
    by code_simp
  have s: "srv_fs st' SHUTDOWN_FILE = Some (File ''True'')"
    by (simp add: st'_def r)
  have t: "srv_trace st' = srv_trace st" by (simp add: st'_def r)
  have m: "srv_fs (shutdown_monitor e' n st') SHUTDOWN_FILE = Some (File ''True'')
           \<and> scheduled_calls (srv_trace (shutdown_monitor e' n st'))
             = scheduled_calls (srv_trace st)" for e' n
    using shutdown_monitor_ignores_invalid_sentinel [OF s, of e' n] np [of "e_runtime e'"] t
    by simp
  from v r c np s m show ?thesis by (simp add: st'_def)
qed

text \<open>
  C10 at an empty working directory on Linux, with three cycles of the monitor.
\<close>

theorem shutdown_seconds_true_accepted_never_executed_witness:
  "\<forall>rt.
     rq_path (api_request ''/api/shutdown'' Map.empty (Parsed (JObj [(''seconds'', JBool True)])))
       = ''/api/shutdown''
     \<and> \<not> e_write_fails (example_env ''linux'' rt (\<lambda>argv. None)) SHUTDOWN_FILE
     \<and> srv_fs \<lparr>srv_fs = Map.empty, srv_shared_dirs = [''/data/docs''],
               srv_shutdown_status = [], srv_trace = []\<rparr> SHUTDOWN_FILE \<noteq> Some Dir
     \<and> fst (do_POST (example_env ''linux'' rt (\<lambda>argv. None))
              (api_request ''/api/shutdown'' Map.empty (Parsed (JObj [(''seconds'', JBool True)])))
              \<lparr>srv_fs = Map.empty, srv_shared_dirs = [''/data/docs''],
               srv_shutdown_status = [], srv_trace = []\<rparr>) = Success 200 SUCCESS
     \<and> scheduled_calls (srv_trace (shutdown_monitor (example_env ''linux'' rt (\<lambda>argv. None)) 3
         (snd (do_POST (example_env ''linux'' rt (\<lambda>argv. None))
                 (api_request ''/api/shutdown'' Map.empty
                    (Parsed (JObj [(''seconds'', JBool True)])))
                 \<lparr>srv_fs = Map.empty, srv_shared_dirs = [''/data/docs''],
                  srv_shutdown_status = [], srv_trace = []\<rparr>)))) = []"
proof
  fix rt
  from shutdown_seconds_true_accepted_never_executed
    [of "api_request ''/api/shutdown'' Map.empty (Parsed (JObj [(''seconds'', JBool True)]))"
        "example_env ''linux'' rt (\<lambda>argv. None)"
        "\<lparr>srv_fs = Map.empty, srv_shared_dirs = [''/data/docs''],
          srv_shutdown_status = [], srv_trace = []\<rparr>"]
  show "rq_path (api_request ''/api/shutdown'' Map.empty (Parsed (JObj [(''seconds'', JBool True)])))
       = ''/api/shutdown''
     \<and> \<not> e_write_fails (example_env ''linux'' rt (\<lambda>argv. None)) SHUTDOWN_FILE
     \<and> srv_fs \<lparr>srv_fs = Map.empty, srv_shared_dirs = [''/data/docs''],
               srv_shutdown_status = [], srv_trace = []\<rparr> SHUTDOWN_FILE \<noteq> Some Dir
     \<and> fst (do_POST (example_env ''linux'' rt (\<lambda>argv. None))
              (api_request ''/api/shutdown'' Map.empty (Parsed (JObj [(''seconds'', JBool True)])))
              \<lparr>srv_fs = Map.empty, srv_shared_dirs = [''/data/docs''],
               srv_shutdown_status = [], srv_trace = []\<rparr>) = Success 200 SUCCESS
     \<and> scheduled_calls (srv_trace (shutdown_monitor (example_env ''linux'' rt (\<lambda>argv. None)) 3
         (snd (do_POST (example_env ''linux'' rt (\<lambda>argv. None))
                 (api_request ''/api/shutdown'' Map.empty
                    (Parsed (JObj [(''seconds'', JBool True)])))
                 \<lparr>srv_fs = Map.empty, srv_shared_dirs = [''/data/docs''],
                  srv_shutdown_status = [], srv_trace = []\<rparr>)))) = []"
    by simp
qed

end
